theory Spec2Isabelle
  imports Complex_Main "HOL-Library.Product_Lexorder"
begin

section \<open>Values, errors and library primitives\<close>

text \<open>
  Numeric columns are read over the reals; a cell that pandas holds as NaN is \<open>None\<close>.
  Python exceptions are values of the type \<open>error\<close>, and a function that may raise
  returns \<open>error + 'a\<close> with the exception on the left.
\<close>

datatype error = ValueError | ZeroDivisionError | KeyError | IndexError

definition fillna0 :: "real option \<Rightarrow> real" where
  \<comment> \<open>\<open>.fillna(0)\<close> on one cell\<close>
  "fillna0 v = (case v of None \<Rightarrow> 0 | Some x \<Rightarrow> x)"

definition pd_unique :: "'a list \<Rightarrow> 'a list" where
  \<comment> \<open>\<open>Series.unique()\<close>: the distinct values in order of first appearance\<close>
  "pd_unique xs = rev (remdups (rev xs))"

definition np_average :: "real list \<Rightarrow> real list \<Rightarrow> error + real" where
  \<comment> \<open>\<open>np.average(a, weights=w)\<close>: raises ZeroDivisionError when the weights sum to zero\<close>
  "np_average a w =
     (if sum_list w = 0 then Inl ZeroDivisionError
      else Inr (sum_list (map2 (*) a w) / sum_list w))"

definition np_mean :: "real list \<Rightarrow> real" where
  "np_mean xs = sum_list xs / real (length xs)"

definition np_std :: "real list \<Rightarrow> real" where
  \<comment> \<open>\<open>np.std\<close> with its default \<open>ddof=0\<close>: the root of the mean squared deviation\<close>
  "np_std xs = sqrt (np_mean (map (\<lambda>x. (x - np_mean xs)\<^sup>2) xs))"

section \<open>Pre-treatment features and matching (01_cem_matching.py)\<close>

text \<open>
  A row of the monthly panel, and a row of the gene-level feature table. In the feature
  table \<open>treated\<close> is 1 (\<open>Some True\<close>), 0 (\<open>Some False\<close>) or missing after the merge.
\<close>

record panel_row =
  gene_id :: nat
  ym_seq :: int
  n_papers :: "real option"
  n_newcomer_papers :: "real option"
  n_veteran_papers :: "real option"
  n_top10_y :: "real option"
  treated :: bool
  average_plddt :: "real option"
  gene_name :: "string option"
  protein_id :: "string option"

record gene_features =
  gene_id :: nat
  pre_mean_papers :: real
  pre_sd_papers :: real
  pre_mean_newcom :: real
  pre_mean_veteran :: real
  pre_mean_top10 :: real
  treated :: "bool option"
  average_plddt :: real
  gene_name :: "string option"
  protein_id :: "string option"

definition notna :: "'a option list \<Rightarrow> 'a list" where
  \<comment> \<open>the cells of a column that are not NaN, in order\<close>
  "notna xs = List.map_filter id xs"

definition pd_mean :: "real option list \<Rightarrow> real option" where
  \<comment> \<open>\<open>mean\<close> of a group: NaN cells are skipped; NaN when none is left\<close>
  "pd_mean xs = (let v = notna xs in if v = [] then None else Some (np_mean v))"

definition pd_std :: "real option list \<Rightarrow> real option" where
  \<comment> \<open>\<open>std\<close> of a group (\<open>ddof=1\<close>): NaN cells are skipped; NaN on fewer than two values\<close>
  "pd_std xs =
     (let v = notna xs
      in if length v < 2 then None
         else Some (sqrt (sum_list (map (\<lambda>x. (x - np_mean v)\<^sup>2) v) / real (length v - 1))))"

definition pd_first :: "'a option list \<Rightarrow> 'a option" where
  \<comment> \<open>\<open>first\<close> of a group: its first cell that is not missing\<close>
  "pd_first xs = (case notna xs of [] \<Rightarrow> None | x # _ \<Rightarrow> Some x)"

definition group_keys :: "panel_row list \<Rightarrow> nat list" where
  \<comment> \<open>the groups of \<open>groupby('gene_id')\<close>: the distinct keys, sorted\<close>
  "group_keys df = sort (remdups (map panel_row.gene_id df))"

definition group_rows :: "panel_row list \<Rightarrow> nat \<Rightarrow> panel_row list" where
  \<comment> \<open>the rows of one group, in the order of the frame\<close>
  "group_rows df g = filter (\<lambda>r. panel_row.gene_id r = g) df"

definition gene_meta ::
  "panel_row list \<Rightarrow> (nat \<times> bool option \<times> real option \<times> string option \<times> string option) list" where
  \<comment> \<open>\<open>df.groupby('gene_id').agg({... : 'first'})\<close>; \<open>treated\<close> is never missing in the
      panel, where it is \<open>(num_deposits == 0).astype(int)\<close>\<close>
  "gene_meta df =
     map (\<lambda>g. let grp = group_rows df g
              in (g, pd_first (map (\<lambda>r. Some (panel_row.treated r)) grp),
                     pd_first (map panel_row.average_plddt grp),
                     pd_first (map panel_row.gene_name grp),
                     pd_first (map panel_row.protein_id grp)))
       (group_keys df)"

definition compute_pre_treatment_features :: "panel_row list \<Rightarrow> int \<Rightarrow> gene_features list" where
  \<comment> \<open>the groups come from \<open>pre_df\<close>; the left merge looks each of them up in
      \<open>gene_meta\<close>; \<open>fillna0\<close> is the closing \<open>fillna(0)\<close> (the earlier one on
      \<open>pre_sd_papers\<close> changes nothing that the closing one would not)\<close>
  "compute_pre_treatment_features df treatment_seq =
     (let pre_df = filter (\<lambda>r. ym_seq r < treatment_seq) df;
          meta = map_of (gene_meta df)
      in map (\<lambda>g. let grp = group_rows pre_df g;
                      m = meta g
                  in \<lparr>gene_features.gene_id = g,
                      pre_mean_papers = fillna0 (pd_mean (map n_papers grp)),
                      pre_sd_papers = fillna0 (pd_std (map n_papers grp)),
                      pre_mean_newcom = fillna0 (pd_mean (map n_newcomer_papers grp)),
                      pre_mean_veteran = fillna0 (pd_mean (map n_veteran_papers grp)),
                      pre_mean_top10 = fillna0 (pd_mean (map n_top10_y grp)),
                      gene_features.treated = (case m of None \<Rightarrow> None | Some (t, p, n, i) \<Rightarrow> t),
                      average_plddt = fillna0 (case m of None \<Rightarrow> None | Some (t, p, n, i) \<Rightarrow> p),
                      gene_name = (case m of None \<Rightarrow> None | Some (t, p, n, i) \<Rightarrow> n),
                      protein_id = (case m of None \<Rightarrow> None | Some (t, p, n, i) \<Rightarrow> i)\<rparr>)
           (group_keys pre_df))"

definition pre_rows :: "panel_row list \<Rightarrow> int \<Rightarrow> nat \<Rightarrow> panel_row list" where
  \<comment> \<open>the rows of gene \<open>g\<close> strictly before the treatment period\<close>
  "pre_rows df treatment_seq g =
     filter (\<lambda>r. ym_seq r < treatment_seq \<and> panel_row.gene_id r = g) df"

definition feature_columns :: "gene_features \<Rightarrow> nat \<times> real \<times> real \<times> real \<times> real \<times> real" where
  \<comment> \<open>the key and the five pre-treatment feature columns of a row\<close>
  "feature_columns r = (gene_features.gene_id r, pre_mean_papers r, pre_sd_papers r, pre_mean_newcom r,
                        pre_mean_veteran r, pre_mean_top10 r)"

subsection \<open>Coarsening\<close>

text \<open>
  \<open>pd.qcut\<close> and \<open>pd.cut\<close> are pandas functions; they are modelled after pandas'
  implementation (\<open>pandas/core/reshape/tile.py\<close>), as the source calls them. pandas
  computes the quantile edges of \<open>pd.qcut\<close> in double precision, where two edges that
  are equal over the reals can differ in the last digit; the edges are therefore a
  parameter \<open>edges\<close> of the model (\<open>edges xs q\<close> stands for
  \<open>xs.quantile(np.linspace(0, 1, q + 1))\<close>), and what is proved of the matching holds for
  every such function. \<open>real_quantiles\<close> is that computation over the reals; it is what
  the doubles give when the interpolation is exact, as in the example tables.
\<close>

type_synonym quantiles = "real list \<Rightarrow> nat \<Rightarrow> real list"

definition quantile_linear :: "real list \<Rightarrow> real \<Rightarrow> real" where
  \<comment> \<open>\<open>Series.quantile(q)\<close> on the sorted values \<open>xs\<close>, linear interpolation\<close>
  "quantile_linear xs q =
     (let pos = q * real (length xs - 1);
          lo = nat \<lfloor>pos\<rfloor>;
          hi = min (lo + 1) (length xs - 1)
      in xs ! lo + (pos - real lo) * (xs ! hi - xs ! lo))"

definition np_linspace :: "real \<Rightarrow> real \<Rightarrow> nat \<Rightarrow> real list" where
  \<comment> \<open>\<open>np.linspace(a, b, num)\<close>, end point included\<close>
  "np_linspace a b num =
     map (\<lambda>i. if 0 < i \<and> i = num - 1 then b else a + real i * ((b - a) / real (num - 1)))
       [0..<num]"

definition searchsorted_left :: "real list \<Rightarrow> real \<Rightarrow> nat" where
  \<comment> \<open>\<open>bins.searchsorted(x, side='left')\<close> on increasing \<open>bins\<close>\<close>
  "searchsorted_left bins x = length (takeWhile (\<lambda>b. b < x) bins)"

definition bins_to_cuts :: "real list \<Rightarrow> bool \<Rightarrow> real list \<Rightarrow> nat option list" where
  \<comment> \<open>pandas' \<open>_bins_to_cuts\<close> with \<open>labels=False\<close>, \<open>right=True\<close> and
      \<open>duplicates='drop'\<close>: repeated edges are dropped (unless there are just two edges), a
      value is coded by the interval it falls in, and a value in no interval is NaN\<close>
  "bins_to_cuts bins0 include_lowest xs =
     (let bins = (if length (remdups bins0) < length bins0 \<and> length bins0 \<noteq> 2
                  then pd_unique bins0 else bins0)
      in map (\<lambda>x. let i = (if include_lowest \<and> (case bins of [] \<Rightarrow> False | b # _ \<Rightarrow> x = b)
                             then 1 else searchsorted_left bins x)
                  in if i = length bins \<or> i = 0 then None else Some (i - 1)) xs)"

definition real_quantiles :: quantiles where
  \<comment> \<open>the quantiles \<open>0, 1/q, ..., 1\<close> of a column, over the reals\<close>
  "real_quantiles xs q = map (quantile_linear (sort xs)) (np_linspace 0 1 (q + 1))"

definition pd_qcut :: "quantiles \<Rightarrow> real list \<Rightarrow> nat \<Rightarrow> error + nat option list" where
  \<comment> \<open>\<open>pd.qcut(xs, q, labels=False, duplicates='drop')\<close>: the edges are the quantiles
      \<open>0, 1/q, ..., 1\<close>; the lowest edge is included; an empty column gives no code;
      with no bin at all (\<open>q = 0\<close>) pandas raises\<close>
  "pd_qcut edges xs q =
     (if q = 0 then Inl ValueError
      else if xs = [] then Inr []
      else Inr (bins_to_cuts (edges xs q) True xs))"

definition pd_cut :: "real list \<Rightarrow> nat \<Rightarrow> error + nat option list" where
  \<comment> \<open>\<open>pd.cut(xs, bins=nbins, labels=False, duplicates='drop')\<close>: equal-width edges over
      the range, the lowest edge moved down by 0.1% of the range; ValueError on
      \<open>nbins < 1\<close> and on an empty column\<close>
  "pd_cut xs nbins =
     (if nbins < 1 then Inl ValueError
      else if xs = [] then Inl ValueError
      else
        (let mn = Min (set xs); mx = Max (set xs);
             bins =
               (if mn = mx then
                  np_linspace (mn - (if mn \<noteq> 0 then 0.001 * \<bar>mn\<bar> else 0.001))
                              (mx + (if mx \<noteq> 0 then 0.001 * \<bar>mx\<bar> else 0.001)) (nbins + 1)
                else (np_linspace mn mx (nbins + 1)) [0 := mn - (mx - mn) * 0.001])
         in Inr (bins_to_cuts bins False xs)))"

definition fill_codes :: "nat option list \<Rightarrow> nat list" where
  \<comment> \<open>\<open>.fillna(0).astype(int)\<close>\<close>
  "fill_codes codes = map (\<lambda>c. case c of None \<Rightarrow> 0 | Some k \<Rightarrow> k) codes"

definition coarsen_with ::
  "(real list \<Rightarrow> nat \<Rightarrow> error + nat option list) \<Rightarrow> (real list \<Rightarrow> nat \<Rightarrow> error + nat option list)
     \<Rightarrow> nat \<Rightarrow> real list \<Rightarrow> error + nat list" where
  \<comment> \<open>the \<open>try\<close>/\<open>except ValueError\<close> of the coarsening loop, for any two binning
      functions: the second is called only when the first raises ValueError\<close>
  "coarsen_with qcut_fn cut_fn n_bins xs =
     (case qcut_fn xs n_bins of
        Inr codes \<Rightarrow> Inr (fill_codes codes)
      | Inl ValueError \<Rightarrow>
         (case cut_fn xs (min n_bins (length (remdups xs))) of
            Inr codes \<Rightarrow> Inr (fill_codes codes)
          | Inl e \<Rightarrow> Inl e)
      | Inl e \<Rightarrow> Inl e)"

definition coarsen :: "quantiles \<Rightarrow> nat \<Rightarrow> real list \<Rightarrow> error + nat list" where
  \<comment> \<open>the column \<open>cem_var\<close> of one covariate\<close>
  "coarsen edges = coarsen_with (pd_qcut edges) pd_cut"

subsection \<open>Strata and weights\<close>

fun string_of_nat :: "nat \<Rightarrow> string" where
  \<comment> \<open>\<open>str\<close> of a bin code\<close>
  "string_of_nat n =
     (if n < 10 then [char_of (48 + n)]
      else string_of_nat (n div 10) @ [char_of (48 + n mod 10)])"

fun join :: "string \<Rightarrow> string list \<Rightarrow> string" where
  \<comment> \<open>\<open>sep.join(xs)\<close>\<close>
  "join sep [] = []"
| "join sep [x] = x"
| "join sep (x # y # ys) = x @ sep @ join sep (y # ys)"

definition match_vars :: "(gene_features \<Rightarrow> real) list" where
  \<comment> \<open>the covariates matched on, in the order of \<open>match_vars\<close>\<close>
  "match_vars = [pre_mean_papers, pre_mean_newcom, pre_mean_veteran, pre_mean_top10, pre_sd_papers]"

fun coarsen_vars ::
  "quantiles \<Rightarrow> nat \<Rightarrow> gene_features list \<Rightarrow> (gene_features \<Rightarrow> real) list
     \<Rightarrow> error + nat list list" where
  \<comment> \<open>the loop over \<open>match_vars\<close>: one column of codes per covariate\<close>
  "coarsen_vars edges n_bins df [] = Inr []"
| "coarsen_vars edges n_bins df (v # vs) =
     (case coarsen edges n_bins (map v df) of
        Inl e \<Rightarrow> Inl e
      | Inr col \<Rightarrow>
         (case coarsen_vars edges n_bins df vs of
            Inl e \<Rightarrow> Inl e
          | Inr cols \<Rightarrow> Inr (col # cols)))"

type_synonym stratified = "gene_features \<times> nat list \<times> string"

definition assign_strata :: "quantiles \<Rightarrow> gene_features list \<Rightarrow> nat \<Rightarrow> error + stratified list" where
  \<comment> \<open>the rows with their bin codes and the stratum key \<open>'_'.join\<close> of the codes. On a
      table with no row, \<open>df[cem_cols].astype(str).agg('_'.join, axis=1)\<close> gives a frame,
      and assigning it to the one column \<open>stratum\<close> raises ValueError\<close>
  "assign_strata edges df n_bins =
     (case coarsen_vars edges n_bins df match_vars of
        Inl e \<Rightarrow> Inl e
      | Inr cols \<Rightarrow>
         if df = [] then Inl ValueError
         else
           Inr (map (\<lambda>i. let codes = map (\<lambda>col. col ! i) cols
                          in (df ! i, codes, join ''_'' (map string_of_nat codes)))
                  [0..<length df]))"

text \<open>
  A row of the matched table: the row of the feature table (\<open>gene\<close>), its bin codes in
  the order of \<open>match_vars\<close>, and the columns the matching adds.
\<close>

record matched_gene =
  gene :: gene_features
  cem :: "nat list"
  stratum :: string
  n_treated :: nat
  n_control :: int
  cem_weight :: "real option"

definition n_treated_in :: "stratified list \<Rightarrow> string \<Rightarrow> nat" where
  \<comment> \<open>\<open>sum\<close> of \<open>treated\<close> in a stratum\<close>
  "n_treated_in S k = length (filter (\<lambda>(g, c, s). s = k \<and> gene_features.treated g = Some True) S)"

definition n_total_in :: "stratified list \<Rightarrow> string \<Rightarrow> nat" where
  \<comment> \<open>\<open>count\<close> of \<open>treated\<close> in a stratum: the cells that are not missing\<close>
  "n_total_in S k = length (filter (\<lambda>(g, c, s). s = k \<and> gene_features.treated g \<noteq> None) S)"

definition n_control_in :: "stratified list \<Rightarrow> string \<Rightarrow> int" where
  \<comment> \<open>\<open>n_total - n_treated\<close>\<close>
  "n_control_in S k = int (n_total_in S k) - int (n_treated_in S k)"

definition common_support :: "stratified list \<Rightarrow> string list" where
  \<comment> \<open>the strata with both arms; only membership in this list is used\<close>
  "common_support S =
     filter (\<lambda>k. 0 < n_treated_in S k \<and> 0 < n_control_in S k) (remdups (map (\<lambda>(g, c, s). s) S))"

definition unscaled :: "stratified list \<Rightarrow> matched_gene list" where
  \<comment> \<open>\<open>df_matched\<close> with the stratum counts merged in and the weight before the
      rescaling; the division is only evaluated on rows whose \<open>n_control\<close> is positive\<close>
  "unscaled S =
     map (\<lambda>(g, c, s).
            \<lparr>gene = g, cem = c, stratum = s,
             matched_gene.n_treated = n_treated_in S s, matched_gene.n_control = n_control_in S s,
             matched_gene.cem_weight = Some (if gene_features.treated g = Some True then 1
                                else real (n_treated_in S s) / real_of_int (n_control_in S s))\<rparr>)
       (filter (\<lambda>(g, c, s). s \<in> set (common_support S)) S)"

definition pd_sum :: "real option list \<Rightarrow> real" where
  \<comment> \<open>\<open>Series.sum()\<close>: NaN cells are skipped\<close>
  "pd_sum xs = sum_list (notna xs)"

definition float_div :: "real \<Rightarrow> real \<Rightarrow> real option" where
  \<comment> \<open>division of two numpy floats: dividing by zero raises nothing and gives a value
      that is not finite (nan for 0/0, inf otherwise), here \<open>None\<close>\<close>
  "float_div a b = (if b = 0 then None else Some (a / b))"

definition fmul :: "real option \<Rightarrow> real option \<Rightarrow> real option" where
  \<comment> \<open>product of two cells; not finite when either is not\<close>
  "fmul a b = (case a of None \<Rightarrow> None | Some x \<Rightarrow> (case b of None \<Rightarrow> None | Some y \<Rightarrow> Some (x * y)))"

definition arm_weights :: "bool \<Rightarrow> matched_gene list \<Rightarrow> real option list" where
  \<comment> \<open>\<open>df.loc[df['treated'] == t, 'cem_weight']\<close>\<close>
  "arm_weights t rows = map matched_gene.cem_weight (filter (\<lambda>r. gene_features.treated (gene r) = Some t) rows)"

definition match_strata :: "stratified list \<Rightarrow> matched_gene list" where
  \<comment> \<open>the second half of \<open>coarsened_exact_matching\<close>: common support, weights, and the
      rescaling of the control weights by \<open>sum_treated / sum_control\<close>\<close>
  "match_strata S =
     (let df_matched = unscaled S;
          sum_treated = pd_sum (arm_weights True df_matched);
          sum_control = pd_sum (arm_weights False df_matched);
          ratio = float_div sum_treated sum_control
      in map (\<lambda>r. if gene_features.treated (gene r) = Some False
                  then r\<lparr>matched_gene.cem_weight := fmul (matched_gene.cem_weight r) ratio\<rparr> else r) df_matched)"

definition coarsened_exact_matching ::
  "quantiles \<Rightarrow> gene_features list \<Rightarrow> nat \<Rightarrow> error + matched_gene list" where
  "coarsened_exact_matching edges gene_features n_bins =
     (case assign_strata edges gene_features n_bins of
        Inl e \<Rightarrow> Inl e
      | Inr S \<Rightarrow> Inr (match_strata S))"

fun fsum :: "real option list \<Rightarrow> real option" where
  \<comment> \<open>the sum of a column that is NaN as soon as one cell is\<close>
  "fsum [] = Some 0"
| "fsum (x # xs) =
     (case x of None \<Rightarrow> None | Some a \<Rightarrow> (case fsum xs of None \<Rightarrow> None | Some b \<Rightarrow> Some (a + b)))"

subsection \<open>Example tables\<close>

definition feat :: "nat \<Rightarrow> bool \<Rightarrow> real \<Rightarrow> gene_features" where
  \<comment> \<open>a gene with \<open>pre_mean_papers = v\<close> and every other covariate 0\<close>
  "feat g t v = \<lparr>gene_features.gene_id = g, pre_mean_papers = v, pre_sd_papers = 0, pre_mean_newcom = 0,
                 pre_mean_veteran = 0, pre_mean_top10 = 0, gene_features.treated = Some t, average_plddt = 0,
                 gene_name = None, protein_id = None\<rparr>"

definition month :: "nat \<Rightarrow> int \<Rightarrow> real \<Rightarrow> panel_row" where
  \<comment> \<open>a panel row of gene \<open>g\<close> in month \<open>t\<close> with \<open>v\<close> papers\<close>
  "month g t v = \<lparr>panel_row.gene_id = g, ym_seq = t, n_papers = Some v, n_newcomer_papers = Some v,
                  n_veteran_papers = Some 0, n_top10_y = None, panel_row.treated = True,
                  panel_row.average_plddt = None, panel_row.gene_name = Some ''G'',
                  panel_row.protein_id = None\<rparr>"

definition toy_genes :: "gene_features list" where
  "toy_genes = [feat 1 True 1, feat 2 True 1, feat 3 True 5, feat 4 True 5,
                feat 5 False 1, feat 6 False 1, feat 7 False 5, feat 8 False 5]"

definition no_support_genes :: "gene_features list" where
  "no_support_genes = [feat 1 True 1, feat 2 False 5]"

definition late_gene_panel :: "panel_row list" where
  "late_gene_panel = [month 1 1 3, month 2 5 7]"

definition sentinel_panel_a :: "panel_row list" where
  "sentinel_panel_a = [month 1 1 3, month 1 2 5, month 1 9 100]"

definition sentinel_panel_b :: "panel_row list" where
  "sentinel_panel_b = [month 1 1 3, month 1 2 5, month 1 9 (-7), month 2 8 1]"

section \<open>Semester panel and first differences (02_semester_aggregation.py)\<close>

text \<open>
  A row of the semester panel holds the gene, the semester and the outcome columns, read
  through \<open>Y\<close>. \<open>groupby_shift\<close> gives, for every row of a frame, the previous row with
  the same key (pandas' \<open>groupby(key).shift()\<close>); the first difference within a gene is
  the row minus that previous row.
\<close>

datatype outcome_name = N_papers | N_newcomer_papers | N_veteran_papers | N_top10_y

definition OUTCOMES :: "outcome_name list" where
  "OUTCOMES = [N_papers, N_newcomer_papers, N_veteran_papers, N_top10_y]"

record sem_row =
  gene_id :: nat
  semester :: int
  Y :: "outcome_name \<Rightarrow> real option"

record delta_row = sem_row +
  asinh_Y :: "outcome_name \<Rightarrow> real option"
  D_Y :: "outcome_name \<Rightarrow> real option"
  D_asinh_Y :: "outcome_name \<Rightarrow> real option"

definition fsub :: "real option \<Rightarrow> real option \<Rightarrow> real option" where
  \<comment> \<open>subtraction of two cells; NaN when either is NaN\<close>
  "fsub a b = (case a of None \<Rightarrow> None | Some x \<Rightarrow> (case b of None \<Rightarrow> None | Some y \<Rightarrow> Some (x - y)))"

fun groupby_shift :: "('k \<rightharpoonup> 'a) \<Rightarrow> 'k list \<Rightarrow> 'a list \<Rightarrow> 'a option list" where
  "groupby_shift prev (k # ks) (v # vs) = prev k # groupby_shift (prev(k \<mapsto> v)) ks vs"
| "groupby_shift prev ks vs = []"

definition diff_cell :: "('r \<Rightarrow> real option) \<Rightarrow> 'r \<Rightarrow> 'r option \<Rightarrow> real option" where
  \<comment> \<open>one cell of \<open>groupby('gene_id')[col].diff()\<close>: the row minus the previous row of its
      gene, NaN on the gene's first row\<close>
  "diff_cell col r p = (case p of None \<Rightarrow> None | Some q \<Rightarrow> fsub (col r) (col q))"

definition delta_of :: "outcome_name set \<Rightarrow> sem_row \<Rightarrow> sem_row option \<Rightarrow> delta_row" where
  \<comment> \<open>the columns the loop over OUTCOMES adds to a row \<open>r\<close> whose gene's previous row is
      \<open>p\<close>; an outcome that is not a column of the frame is skipped\<close>
  "delta_of cols r p =
     \<lparr>sem_row.gene_id = sem_row.gene_id r, sem_row.semester = sem_row.semester r, Y = Y r,
      asinh_Y = (\<lambda>y. if y \<in> set OUTCOMES \<and> y \<in> cols then map_option arsinh (Y r y) else None),
      D_Y = (\<lambda>y. if y \<in> set OUTCOMES \<and> y \<in> cols then diff_cell (\<lambda>r. Y r y) r p else None),
      D_asinh_Y = (\<lambda>y. if y \<in> set OUTCOMES \<and> y \<in> cols
                       then diff_cell (\<lambda>r. map_option arsinh (Y r y)) r p
                       else None)\<rparr>"

definition create_delta_variables :: "outcome_name set \<Rightarrow> sem_row list \<Rightarrow> error + delta_row list" where
  \<comment> \<open>\<open>cols\<close> are the outcome columns the frame has; the closing count reads
      \<open>D_n_papers\<close> and raises KeyError when \<open>n_papers\<close> was skipped\<close>
  "create_delta_variables cols df0 =
     (let df = sort_key (\<lambda>r. (sem_row.gene_id r, sem_row.semester r)) df0;
          prevs = groupby_shift Map.empty (map sem_row.gene_id df) df;
          rows = map2 (delta_of cols) df prevs
      in if N_papers \<in> cols then Inr rows else Inl KeyError)"

definition gene_rows :: "nat \<Rightarrow> delta_row list \<Rightarrow> delta_row list" where
  \<comment> \<open>the rows of one gene, in the order of the frame\<close>
  "gene_rows g res = filter (\<lambda>r. sem_row.gene_id r = g) res"

definition sem :: "nat \<Rightarrow> int \<Rightarrow> real \<Rightarrow> sem_row" where
  "sem g s v = \<lparr>sem_row.gene_id = g, sem_row.semester = s, Y = (\<lambda>y. Some v)\<rparr>"

definition delta_panel :: "sem_row list" where
  "delta_panel = [sem 7 2 5, sem 7 1 1, sem 8 1 4, sem 7 3 10]"

section \<open>Event study (03_event_study.py)\<close>

text \<open>
  One row of the semester panel as the estimators read it. The field \<open>outcome\<close> is the
  column named by the argument \<open>outcome\<close>, \<open>cem_weight\<close> the column named by
  \<open>weight_col\<close>. The column \<open>treated\<close> is 1 (\<open>Some True\<close>), 0 (\<open>Some False\<close>) or
  missing.
\<close>

record es_row =
  gene_id :: nat
  semester :: int
  rel_semester :: int
  treated :: "bool option"
  cem_weight :: real
  outcome :: "real option"

record coef_row =
  period :: int
  coef :: real
  se :: real
  ci_low :: real
  ci_high :: real

record did_row = coef_row +
  n_treated :: nat
  n_control :: nat

definition dropna :: "es_row list \<Rightarrow> es_row list" where
  \<comment> \<open>\<open>df.dropna(subset=[outcome])\<close>\<close>
  "dropna df = filter (\<lambda>r. outcome r \<noteq> None) df"

definition arm :: "es_row list \<Rightarrow> int \<Rightarrow> bool \<Rightarrow> es_row list" where
  \<comment> \<open>\<open>df[(df['rel_semester'] == k) & (df['treated'] == t)]\<close>\<close>
  "arm df k t = filter (\<lambda>r. rel_semester r = k \<and> treated r = Some t) df"

definition weighted_mean :: "es_row list \<Rightarrow> error + real" where
  \<comment> \<open>\<open>np.average(rows[outcome], weights=rows[weight_col])\<close>, on rows kept by \<open>dropna\<close>\<close>
  "weighted_mean rows = np_average (map (\<lambda>r. fillna0 (outcome r)) rows) (map cem_weight rows)"

text \<open>
  The global random generator is a stream of naturals that is passed along:
  \<open>np.random.choice(a, size=len(a), replace=True)\<close> reads \<open>len(a)\<close> numbers from it,
  each one selecting a position of \<open>a\<close>, and leaves the rest of the stream.
\<close>

type_synonym rng = "nat \<Rightarrow> nat"

definition random_choice :: "nat list \<Rightarrow> rng \<Rightarrow> nat list \<times> rng" where
  "random_choice a g =
     (map (\<lambda>i. a ! (g i mod length a)) [0..<length a], (\<lambda>i. g (i + length a)))"

definition boot_replicate ::
  "es_row list \<Rightarrow> es_row list \<Rightarrow> real \<Rightarrow> rng \<Rightarrow> error + (real option \<times> rng)" where
  \<comment> \<open>one pass of the bootstrap loop body; \<open>None\<close> when nothing is appended\<close>
  "boot_replicate treated_k control_k base_diff g =
     (let genes_t = pd_unique (map gene_id treated_k);
          genes_c = pd_unique (map gene_id control_k);
          (boot_genes_t, g1) = random_choice genes_t g;
          (boot_genes_c, g2) = random_choice genes_c g1;
          boot_t = filter (\<lambda>r. gene_id r \<in> set boot_genes_t) treated_k;
          boot_c = filter (\<lambda>r. gene_id r \<in> set boot_genes_c) control_k
      in if boot_t \<noteq> [] \<and> boot_c \<noteq> [] then
           (case weighted_mean boot_t of
              Inl e \<Rightarrow> Inl e
            | Inr m_t \<Rightarrow>
               (case weighted_mean boot_c of
                  Inl e \<Rightarrow> Inl e
                | Inr m_c \<Rightarrow> Inr (Some ((m_t - m_c) - base_diff), g2)))
         else Inr (None, g2))"

fun bootstrap ::
  "nat \<Rightarrow> es_row list \<Rightarrow> es_row list \<Rightarrow> real \<Rightarrow> real list \<Rightarrow> rng \<Rightarrow> error + (real list \<times> rng)" where
  "bootstrap 0 treated_k control_k base_diff boot_coefs g = Inr (boot_coefs, g)"
| "bootstrap (Suc n) treated_k control_k base_diff boot_coefs g =
     (case boot_replicate treated_k control_k base_diff g of
        Inl e \<Rightarrow> Inl e
      | Inr (None, g') \<Rightarrow> bootstrap n treated_k control_k base_diff boot_coefs g'
      | Inr (Some c, g') \<Rightarrow> bootstrap n treated_k control_k base_diff (boot_coefs @ [c]) g')"

definition n_boot :: nat where
  "n_boot = 200"

fun period_loop ::
  "es_row list \<Rightarrow> int \<Rightarrow> real \<Rightarrow> int list \<Rightarrow> rng \<Rightarrow> error + (did_row list \<times> rng)" where
  "period_loop df base_period base_diff [] g = Inr ([], g)"
| "period_loop df base_period base_diff (k # ks) g =
     (let treated_k = arm df k True;
          control_k = arm df k False
      in if treated_k = [] \<or> control_k = [] then period_loop df base_period base_diff ks g
         else
           (case weighted_mean treated_k of
              Inl e \<Rightarrow> Inl e
            | Inr mean_treated \<Rightarrow>
           (case weighted_mean control_k of
              Inl e \<Rightarrow> Inl e
            | Inr mean_control \<Rightarrow>
           (let diff_k = mean_treated - mean_control;
                c = (if k \<noteq> base_period then diff_k - base_diff else 0)
            in case bootstrap n_boot treated_k control_k base_diff [] g of
                 Inl e \<Rightarrow> Inl e
               | Inr (boot_coefs, g') \<Rightarrow>
                  (let s = (if boot_coefs \<noteq> [] then np_std boot_coefs else 0);
                       row = \<lparr>period = k, coef = c, se = s,
                              ci_low = c - 1.96 * s, ci_high = c + 1.96 * s,
                              n_treated = length treated_k, n_control = length control_k\<rparr>
                   in case period_loop df base_period base_diff ks g' of
                        Inl e \<Rightarrow> Inl e
                      | Inr (results, g'') \<Rightarrow> Inr (row # results, g''))))))"

definition run_event_study_simple ::
  "rng \<Rightarrow> es_row list \<Rightarrow> int \<Rightarrow> error + (did_row list option \<times> rng)" where
  \<comment> \<open>the result \<open>None\<close> is Python's \<open>return None\<close>; sorting an empty result table by
      \<open>period\<close> raises KeyError\<close>
  "run_event_study_simple g df0 base_period =
     (let df = dropna df0
      in if df = [] then Inr (None, g)
         else
           (let periods = sort (remdups (map rel_semester df));
                base_treated = arm df base_period True;
                base_control = arm df base_period False
            in if base_treated = [] \<or> base_control = [] then Inr (None, g)
               else
                 (case weighted_mean base_treated of
                    Inl e \<Rightarrow> Inl e
                  | Inr bt \<Rightarrow>
                 (case weighted_mean base_control of
                    Inl e \<Rightarrow> Inl e
                  | Inr bc \<Rightarrow>
                 (case period_loop df base_period (bt - bc) periods g of
                    Inl e \<Rightarrow> Inl e
                  | Inr (results, g') \<Rightarrow>
                     if results = [] then Inl KeyError
                     else Inr (Some (sort_key period results), g'))))))"

text \<open>
  The regression of \<open>run_event_study_ols\<close> (two-way demeaning, weighting, \<open>sm.OLS\<close> with
  clustered covariance) is floating-point linear algebra of statsmodels; it is the
  parameter \<open>fit\<close>, which receives the rows without missing outcome and the periods of
  the interaction columns and gives \<open>params[1:]\<close> and \<open>bse[1:]\<close>, or raises. Every
  exception of the fit is caught and turned into \<open>return None\<close>.
\<close>

fun ols_rows :: "int list \<Rightarrow> real list \<Rightarrow> real list \<Rightarrow> nat \<Rightarrow> error + coef_row list" where
  "ols_rows [] coefs ses i = Inr []"
| "ols_rows (k # ks) coefs ses i =
     (if i < length coefs \<and> i < length ses then
        (case ols_rows ks coefs ses (Suc i) of
           Inl e \<Rightarrow> Inl e
         | Inr rows \<Rightarrow>
            Inr (\<lparr>period = k, coef = coefs ! i, se = ses ! i,
                  ci_low = coefs ! i - 1.96 * ses ! i,
                  ci_high = coefs ! i + 1.96 * ses ! i\<rparr> # rows))
      else Inl IndexError)"

definition run_event_study_ols ::
  "(es_row list \<Rightarrow> int list \<Rightarrow> error + (real list \<times> real list)) \<Rightarrow> es_row list \<Rightarrow> int
     \<Rightarrow> error + coef_row list option" where
  "run_event_study_ols fit df0 base_period =
     (let df = dropna df0
      in if df = [] then Inr None
         else
           (let periods = sort (remdups (map rel_semester df));
                interaction = filter (\<lambda>k. k \<noteq> base_period) periods
            in case fit df interaction of
                 Inl e \<Rightarrow> Inr None
               | Inr (coefs, ses) \<Rightarrow>
                  (case ols_rows interaction coefs ses 0 of
                     Inl e \<Rightarrow> Inl e
                   | Inr rows \<Rightarrow>
                      Inr (Some (sort_key period
                        (rows @ [\<lparr>period = base_period, coef = 0, se = 0,
                                  ci_low = 0, ci_high = 0\<rparr>]))))))"

subsection \<open>Example panels\<close>

definition es :: "nat \<Rightarrow> int \<Rightarrow> bool \<Rightarrow> real \<Rightarrow> es_row" where
  \<comment> \<open>a row of gene \<open>g\<close> at relative semester \<open>k\<close> with weight 1\<close>
  "es g k t v = \<lparr>gene_id = g, semester = k + 13, rel_semester = k, treated = Some t,
                 cem_weight = 1, outcome = Some v\<rparr>"

definition gene_series :: "nat \<Rightarrow> bool \<Rightarrow> real list \<Rightarrow> es_row list" where
  \<comment> \<open>the rows of one gene over the relative semesters -2, -1, 0, 1\<close>
  "gene_series g t vs = map (\<lambda>(k, v). es g k t v) (zip [-2, -1, 0, 1] vs)"

definition sanity_panel :: "es_row list" where
  "sanity_panel =
     gene_series 11 True [2, 2, 2, 6] @ gene_series 12 True [2, 2, 2, 6] @
     gene_series 13 False [2, 2, 2, 2] @ gene_series 14 False [2, 2, 2, 2]"

definition no_base_control_panel :: "es_row list" where
  "no_base_control_panel = [es 11 (-1) True 1, es 11 0 True 2, es 13 0 False 0]"

definition base_only_panel :: "es_row list" where
  "base_only_panel = [es 11 (-1) True 1, es 12 (-1) True 3, es 13 (-1) False 0]"

definition rng_first_one :: rng where
  "rng_first_one = (\<lambda>i. if i = 0 then 1 else 0)"

definition rng_third_one :: rng where
  "rng_third_one = (\<lambda>i. if i = 2 then 1 else 0)"

definition dup_treated :: "es_row list" where
  "dup_treated = [es 21 0 True 0, es 22 0 True 3, es 23 0 True 30]"

definition dup_control :: "es_row list" where
  "dup_control = [es 24 0 False 0]"

definition constant_fit :: "es_row list \<Rightarrow> int list \<Rightarrow> error + (real list \<times> real list)" where
  \<comment> \<open>a stand-in for a fitted regression: coefficient 5 and standard error 1 everywhere\<close>
  "constant_fit df ks = Inr (map (\<lambda>k. 5) ks, map (\<lambda>k. 1) ks)"

definition resample_with_multiplicity :: "es_row list \<Rightarrow> nat list \<Rightarrow> es_row list" where
  \<comment> \<open>the resample in the spec's words: the rows of every drawn gene, once per draw\<close>
  "resample_with_multiplicity rows genes =
     concat (map (\<lambda>g. filter (\<lambda>r. gene_id r = g) rows) genes)"

section \<open>Properties of the features and of the matching\<close>

lemma unscaled_row:
  assumes "r \<in> set (unscaled S)"
  shows "(gene r, cem r, stratum r) \<in> set S"
    and "matched_gene.n_treated r = n_treated_in S (stratum r)"
    and "matched_gene.n_control r = n_control_in S (stratum r)"
    and "0 < n_treated_in S (stratum r)"
    and "0 < n_control_in S (stratum r)"
    and "matched_gene.cem_weight r = Some (if gene_features.treated (gene r) = Some True then 1
                              else real (n_treated_in S (stratum r)) / real_of_int (n_control_in S (stratum r)))"
  using assms by (auto simp: unscaled_def common_support_def)

lemma unscaled_weight_pos:
  assumes "r \<in> set (unscaled S)"
  shows "\<exists>w. matched_gene.cem_weight r = Some w \<and> 0 < w"
  using unscaled_row(4,5,6)[OF assms] by simp

lemma in_unscaled:
  assumes "(g, c, s) \<in> set S" "0 < n_treated_in S s" "0 < n_control_in S s"
  shows "\<exists>r\<in>set (unscaled S). gene r = g \<and> cem r = c \<and> stratum r = s"
proof -
  have "s \<in> set (common_support S)"
    using assms by (force simp: common_support_def)
  then have "(g, c, s) \<in> set (filter (\<lambda>(g, c, s). s \<in> set (common_support S)) S)"
    using assms(1) by simp
  then show ?thesis unfolding unscaled_def by force
qed

lemma filter_length_less:
  "length (filter P xs) < length (filter Q xs) \<Longrightarrow> \<exists>x\<in>set xs. Q x \<and> \<not> P x"
proof (induction xs)
  case Nil then show ?case by simp
next
  case (Cons a xs)
  then show ?case by (cases "Q a \<and> \<not> P a") (auto split: if_splits)
qed

lemma control_in_stratum:
  assumes "0 < n_control_in S k"
  shows "\<exists>g c. (g, c, k) \<in> set S \<and> gene_features.treated g = Some False"
proof -
  have "length (filter (\<lambda>(g, c, s). s = k \<and> gene_features.treated g = Some True) S)
          < length (filter (\<lambda>(g, c, s). s = k \<and> gene_features.treated g \<noteq> None) S)"
    using assms by (simp add: n_control_in_def n_total_in_def n_treated_in_def)
  then obtain x where x: "x \<in> set S" "(\<lambda>(g, c, s). s = k \<and> gene_features.treated g \<noteq> None) x"
      "\<not> (\<lambda>(g, c, s). s = k \<and> gene_features.treated g = Some True) x"
    using filter_length_less by blast
  obtain g c s where "x = (g, c, s)" by (cases x) auto
  then show ?thesis using x by auto
qed

lemma treated_in_stratum:
  assumes "0 < n_treated_in S k"
  shows "\<exists>g c. (g, c, k) \<in> set S \<and> gene_features.treated g = Some True"
proof -
  have "filter (\<lambda>(g, c, s). s = k \<and> gene_features.treated g = Some True) S \<noteq> []"
    using assms by (simp add: n_treated_in_def)
  then obtain x where "x \<in> set (filter (\<lambda>(g, c, s). s = k \<and> gene_features.treated g = Some True) S)"
    by (meson last_in_set)
  then show ?thesis by auto
qed

lemma unscaled_has_control:
  assumes "r \<in> set (unscaled S)"
  shows "\<exists>c\<in>set (unscaled S). stratum c = stratum r \<and> gene_features.treated (gene c) = Some False"
proof -
  obtain g c where "(g, c, stratum r) \<in> set S" "gene_features.treated g = Some False"
    using control_in_stratum[OF unscaled_row(5)[OF assms]] by blast
  then show ?thesis
    using in_unscaled[OF _ unscaled_row(4)[OF assms] unscaled_row(5)[OF assms]] by metis
qed

lemma unscaled_has_treated:
  assumes "r \<in> set (unscaled S)"
  shows "\<exists>c\<in>set (unscaled S). stratum c = stratum r \<and> gene_features.treated (gene c) = Some True"
proof -
  obtain g c where "(g, c, stratum r) \<in> set S" "gene_features.treated g = Some True"
    using treated_in_stratum[OF unscaled_row(4)[OF assms]] by blast
  then show ?thesis
    using in_unscaled[OF _ unscaled_row(4)[OF assms] unscaled_row(5)[OF assms]] by metis
qed

lemma notna_Some: "notna (map Some ws) = ws"
  by (induction ws) (simp_all add: notna_def List.map_filter_simps)

lemma fsum_Some: "fsum (map Some ws) = Some (sum_list ws)"
  by (induction ws) simp_all

lemma weights_Some:
  assumes "\<forall>r\<in>set rows. \<exists>w. matched_gene.cem_weight r = Some w \<and> 0 < w"
  shows "\<exists>ws. map matched_gene.cem_weight rows = map Some ws \<and> (\<forall>w\<in>set ws. 0 < w)"
  using assms
proof (induction rows)
  case Nil then show ?case by simp
next
  case (Cons r rows)
  then obtain ws where ws: "map matched_gene.cem_weight rows = map Some ws" "\<forall>w\<in>set ws. 0 < w" by auto
  obtain w where w: "matched_gene.cem_weight r = Some w" "0 < w" using Cons.prems by auto
  show ?case
    by (rule exI[of _ "w # ws"]) (simp add: ws w)
qed

lemma sum_list_pos_real:
  fixes ws :: "real list"
  shows "ws \<noteq> [] \<Longrightarrow> \<forall>w\<in>set ws. 0 < w \<Longrightarrow> 0 < sum_list ws"
  by (induction ws) (auto intro: add_pos_nonneg sum_list_nonneg less_imp_le)

lemma weight_balance_core:
  assumes ne: "match_strata S \<noteq> []"
  shows "\<exists>s. fsum (arm_weights True (match_strata S)) = Some s
            \<and> fsum (arm_weights False (match_strata S)) = Some s \<and> 0 < s"
proof -
  define U where "U = unscaled S"
  define T where "T = filter (\<lambda>r. gene_features.treated (gene r) = Some True) U"
  define C where "C = filter (\<lambda>r. gene_features.treated (gene r) = Some False) U"
  have Une: "U \<noteq> []" using ne by (auto simp: match_strata_def U_def Let_def)
  then obtain r where r: "r \<in> set U" by (meson last_in_set)
  obtain c where c: "c \<in> set C"
    using unscaled_has_control[of r S] r by (auto simp: U_def C_def)
  obtain t where t: "t \<in> set T"
    using unscaled_has_treated[of r S] r by (auto simp: U_def T_def)
  have posU: "\<forall>r\<in>set U. \<exists>w. matched_gene.cem_weight r = Some w \<and> 0 < w"
    using unscaled_weight_pos by (auto simp: U_def)
  obtain tw where tw: "map matched_gene.cem_weight T = map Some tw" "\<forall>w\<in>set tw. 0 < w"
    using weights_Some[of T] posU by (auto simp: T_def)
  obtain cw where cw: "map matched_gene.cem_weight C = map Some cw" "\<forall>w\<in>set cw. 0 < w"
    using weights_Some[of C] posU by (auto simp: C_def)
  have twne: "tw \<noteq> []" using t tw(1) by (metis empty_iff list.set(1) map_is_Nil_conv)
  have cwne: "cw \<noteq> []" using c cw(1) by (metis empty_iff list.set(1) map_is_Nil_conv)
  have st: "pd_sum (arm_weights True U) = sum_list tw"
    by (simp add: arm_weights_def T_def[symmetric] tw pd_sum_def notna_Some)
  have sc: "pd_sum (arm_weights False U) = sum_list cw"
    by (simp add: arm_weights_def C_def[symmetric] cw pd_sum_def notna_Some)
  have stpos: "0 < sum_list tw" using sum_list_pos_real[OF twne tw(2)] .
  have scpos: "0 < sum_list cw" using sum_list_pos_real[OF cwne cw(2)] .
  define q where "q = sum_list tw / sum_list cw"
  have ratio: "float_div (pd_sum (arm_weights True U)) (pd_sum (arm_weights False U)) = Some q"
    using scpos by (simp add: st sc float_div_def q_def)
  have M: "match_strata S
             = map (\<lambda>r. if gene_features.treated (gene r) = Some False
                         then r\<lparr>matched_gene.cem_weight := fmul (matched_gene.cem_weight r) (Some q)\<rparr> else r) U"
    using ratio by (simp add: match_strata_def U_def[symmetric] Let_def)
  have MT: "arm_weights True (match_strata S) = map matched_gene.cem_weight T"
    unfolding M arm_weights_def T_def
    by (induction U) auto
  have MC: "arm_weights False (match_strata S) = map (\<lambda>r. fmul (matched_gene.cem_weight r) (Some q)) C"
    unfolding M arm_weights_def C_def
    by (induction U) auto
  have "map (\<lambda>r. fmul (matched_gene.cem_weight r) (Some q)) C = map (\<lambda>x. fmul x (Some q)) (map matched_gene.cem_weight C)"
    by simp
  also have "\<dots> = map Some (map (\<lambda>w. w * q) cw)"
    unfolding cw(1) by (simp add: fmul_def comp_def)
  finally have MC': "arm_weights False (match_strata S) = map Some (map (\<lambda>w. w * q) cw)"
    using MC by simp
  have "sum_list (map (\<lambda>w. w * q) cw) = sum_list cw * q"
    by (simp add: sum_list_mult_const)
  also have "\<dots> = sum_list tw" using scpos by (simp add: q_def)
  finally have eq: "sum_list (map (\<lambda>w. w * q) cw) = sum_list tw" .
  have fT: "fsum (arm_weights True (match_strata S)) = Some (sum_list tw)"
    unfolding MT tw(1) by (rule fsum_Some)
  have fC: "fsum (arm_weights False (match_strata S)) = Some (sum_list (map (\<lambda>w. w * q) cw))"
    unfolding MC' by (rule fsum_Some)
  show ?thesis using fT fC eq stpos by simp
qed

lemma toy_cem:
  "map_sum id (map (\<lambda>r. (gene_features.gene_id (gene r), stratum r, matched_gene.n_treated r, matched_gene.n_control r, matched_gene.cem_weight r)))
     (coarsened_exact_matching real_quantiles toy_genes 10)
   = Inr [(1, ''0_0_0_0_0'', 2, 2, Some 1), (2, ''0_0_0_0_0'', 2, 2, Some 1),
          (3, ''1_0_0_0_0'', 2, 2, Some 1), (4, ''1_0_0_0_0'', 2, 2, Some 1),
          (5, ''0_0_0_0_0'', 2, 2, Some 1), (6, ''0_0_0_0_0'', 2, 2, Some 1),
          (7, ''1_0_0_0_0'', 2, 2, Some 1), (8, ''1_0_0_0_0'', 2, 2, Some 1)]"
  by code_simp

lemma no_support_strata:
  "map_sum id (map (\<lambda>(g, c, s). (gene_features.gene_id g, gene_features.treated g, s)))
     (assign_strata real_quantiles no_support_genes 10)
     = Inr [(1, Some True, ''0_0_0_0_0''), (2, Some False, ''9_0_0_0_0'')]"
  by code_simp

lemma pd_qcut_returns:
  "0 < q \<Longrightarrow> \<exists>codes. pd_qcut edges xs q = Inr codes \<and> length codes = length xs"
  by (simp add: pd_qcut_def bins_to_cuts_def Let_def)

lemma coarsen_returns:
  "0 < n \<Longrightarrow> \<exists>col. coarsen edges n xs = Inr col \<and> length col = length xs"
  using pd_qcut_returns[of n edges xs]
  by (auto simp: coarsen_def coarsen_with_def fill_codes_def)

lemma coarsen_vars_returns: "0 < n \<Longrightarrow> \<exists>cols. coarsen_vars edges n df vs = Inr cols"
proof (induction vs)
  case Nil show ?case by simp
next
  case (Cons v vs)
  obtain col where "coarsen edges n (map v df) = Inr col"
    using coarsen_returns[OF Cons.prems] by blast
  then show ?case using Cons by auto
qed

lemma assign_strata_returns:
  assumes "df \<noteq> []" and "0 < n"
  shows "\<exists>S. assign_strata edges df n = Inr S \<and> map fst S = df"
proof -
  obtain cols where c: "coarsen_vars edges n df match_vars = Inr cols"
    using coarsen_vars_returns[OF assms(2)] by blast
  show ?thesis
    using assms(1) by (simp add: assign_strata_def c Let_def comp_def map_nth)
qed

lemma empty_table_raises: "\<exists>e. coarsened_exact_matching edges [] n_bins = Inl e"
proof (cases "coarsen_vars edges n_bins [] match_vars")
  case (Inl e)
  then show ?thesis by (simp add: coarsened_exact_matching_def assign_strata_def)
next
  case (Inr cols)
  then show ?thesis by (simp add: coarsened_exact_matching_def assign_strata_def)
qed

lemma match_strata_fields:
  "map (\<lambda>r. (gene r, cem r, stratum r, matched_gene.n_treated r, matched_gene.n_control r)) (match_strata S)
     = map (\<lambda>r. (gene r, cem r, stratum r, matched_gene.n_treated r, matched_gene.n_control r)) (unscaled S)"
  by (simp add: match_strata_def Let_def comp_def)

lemma match_strata_triples:
  "map (\<lambda>r. (gene r, cem r, stratum r)) (match_strata S)
     = filter (\<lambda>(g, c, s). 0 < n_treated_in S s \<and> 0 < n_control_in S s) S"
proof -
  have "map (\<lambda>r. (gene r, cem r, stratum r)) (match_strata S)
          = map (\<lambda>r. (gene r, cem r, stratum r)) (unscaled S)"
    by (simp add: match_strata_def Let_def comp_def)
  also have "\<dots> = filter (\<lambda>(g, c, s). s \<in> set (common_support S)) S"
    by (simp add: unscaled_def comp_def case_prod_unfold)
  also have "\<dots> = filter (\<lambda>(g, c, s). 0 < n_treated_in S s \<and> 0 < n_control_in S s) S"
    by (rule filter_cong) (force simp: common_support_def)+
  finally show ?thesis .
qed

lemma match_strata_row:
  assumes "r \<in> set (match_strata S)"
  shows "\<exists>u\<in>set (unscaled S). gene u = gene r \<and> cem u = cem r \<and> stratum u = stratum r
           \<and> matched_gene.n_treated u = matched_gene.n_treated r \<and> matched_gene.n_control u = matched_gene.n_control r"
proof -
  have "(gene r, cem r, stratum r, matched_gene.n_treated r, matched_gene.n_control r)
          \<in> set (map (\<lambda>r. (gene r, cem r, stratum r, matched_gene.n_treated r, matched_gene.n_control r)) (match_strata S))"
    using assms by force
  then show ?thesis unfolding match_strata_fields by auto
qed

lemma unscaled_row_matched:
  assumes "u \<in> set (unscaled S)"
  shows "\<exists>r\<in>set (match_strata S). gene r = gene u \<and> stratum r = stratum u"
proof -
  have "(gene u, cem u, stratum u, matched_gene.n_treated u, matched_gene.n_control u)
          \<in> set (map (\<lambda>r. (gene r, cem r, stratum r, matched_gene.n_treated r, matched_gene.n_control r)) (unscaled S))"
    using assms by force
  then show ?thesis unfolding match_strata_fields[symmetric] by auto
qed

lemma no_support_empty:
  assumes "\<forall>a\<in>set S. \<forall>b\<in>set S.
             \<not> (snd (snd a) = snd (snd b) \<and> gene_features.treated (fst a) = Some True \<and> gene_features.treated (fst b) = Some False)"
  shows "match_strata S = []"
proof -
  have "common_support S = []"
  proof (rule ccontr)
    assume "common_support S \<noteq> []"
    then obtain k where "k \<in> set (common_support S)" by (meson last_in_set)
    then have k: "0 < n_treated_in S k" "0 < n_control_in S k"
      by (auto simp: common_support_def)
    obtain g c where a: "(g, c, k) \<in> set S" "gene_features.treated g = Some True"
      using treated_in_stratum[OF k(1)] by blast
    obtain g' c' where b: "(g', c', k) \<in> set S" "gene_features.treated g' = Some False"
      using control_in_stratum[OF k(2)] by blast
    show False using assms a b by force
  qed
  then show ?thesis by (simp add: match_strata_def unscaled_def Let_def)
qed

text \<open>
  C2. When the matching returns a matched set that is not empty, every weight is finite,
  and the weights of the treated genes and the weights of the control genes add up to
  the same positive number, whatever edges the quantile binning computes.
\<close>

theorem weight_balance:
  assumes "coarsened_exact_matching edges df n_bins = Inr m" and "m \<noteq> []"
  shows "\<exists>s. fsum (arm_weights True m) = Some s \<and> fsum (arm_weights False m) = Some s \<and> 0 < s"
proof -
  obtain S where "m = match_strata S"
    using assms(1) by (auto simp: coarsened_exact_matching_def split: sum.splits)
  then show ?thesis using weight_balance_core assms(2) by blast
qed

theorem weight_balance_witness:
  "coarsened_exact_matching real_quantiles toy_genes 10 \<noteq> Inr []
   \<and> (\<exists>m s. coarsened_exact_matching real_quantiles toy_genes 10 = Inr m
         \<and> fsum (arm_weights True m) = Some s \<and> fsum (arm_weights False m) = Some s \<and> 0 < s)"
proof -
  have "toy_genes \<noteq> []" by (simp add: toy_genes_def)
  then obtain S where S: "assign_strata real_quantiles toy_genes 10 = Inr S"
    using assign_strata_returns[of toy_genes 10 real_quantiles] by auto
  then have m: "coarsened_exact_matching real_quantiles toy_genes 10 = Inr (match_strata S)"
    by (simp add: coarsened_exact_matching_def)
  have ne: "match_strata S \<noteq> []" using toy_cem unfolding m by auto
  show ?thesis using weight_balance[OF m ne] m ne by auto
qed

text \<open>
  C3 as stated fails: the empty feature table has no stratum with both arms, and the
  matching raises ValueError on it where the claim has it return an empty matched set.
\<close>

theorem empty_table_counterexample:
  "coarsened_exact_matching real_quantiles [] 10 = Inl ValueError"
  by (simp add: coarsened_exact_matching_def assign_strata_def match_vars_def coarsen_def
      coarsen_with_def pd_qcut_def fill_codes_def)

text \<open>
  C3, amended. On a feature table with at least one gene, and with at least one bin, the
  matching does not raise, whatever edges the quantile binning computes. Every input
  gene is assigned one stratum; the matched set is the input genes whose stratum counts
  a treated and a control gene, each with the stratum it was assigned; the counts
  carried by a retained gene are positive in both arms, and the matched set holds a
  treated and a control gene of its stratum. When no stratum holds both arms the matched
  set is empty.
\<close>

theorem common_support_invariant:
  assumes "df \<noteq> []" and "0 < n_bins"
  shows "\<exists>S m. assign_strata edges df n_bins = Inr S \<and> map fst S = df
      \<and> coarsened_exact_matching edges df n_bins = Inr m
      \<and> map (\<lambda>r. (gene r, cem r, stratum r)) m
          = filter (\<lambda>(g, c, s). 0 < n_treated_in S s \<and> 0 < n_control_in S s) S
      \<and> (\<forall>r\<in>set m. (gene r, cem r, stratum r) \<in> set S
            \<and> matched_gene.n_treated r = n_treated_in S (stratum r) \<and> 0 < matched_gene.n_treated r
            \<and> matched_gene.n_control r = n_control_in S (stratum r) \<and> 0 < matched_gene.n_control r
            \<and> (\<exists>t\<in>set m. stratum t = stratum r \<and> gene_features.treated (gene t) = Some True)
            \<and> (\<exists>c\<in>set m. stratum c = stratum r \<and> gene_features.treated (gene c) = Some False))
      \<and> ((\<forall>a\<in>set S. \<forall>b\<in>set S.
             \<not> (snd (snd a) = snd (snd b) \<and> gene_features.treated (fst a) = Some True
                 \<and> gene_features.treated (fst b) = Some False))
          \<longrightarrow> m = [])"
proof -
  obtain S where S: "assign_strata edges df n_bins = Inr S" "map fst S = df"
    using assign_strata_returns[OF assms] by blast
  have m: "coarsened_exact_matching edges df n_bins = Inr (match_strata S)"
    using S(1) by (simp add: coarsened_exact_matching_def)
  have rows: "\<forall>r\<in>set (match_strata S). (gene r, cem r, stratum r) \<in> set S
            \<and> matched_gene.n_treated r = n_treated_in S (stratum r) \<and> 0 < matched_gene.n_treated r
            \<and> matched_gene.n_control r = n_control_in S (stratum r) \<and> 0 < matched_gene.n_control r
            \<and> (\<exists>t\<in>set (match_strata S). stratum t = stratum r \<and> gene_features.treated (gene t) = Some True)
            \<and> (\<exists>c\<in>set (match_strata S). stratum c = stratum r \<and> gene_features.treated (gene c) = Some False)"
  proof
    fix r assume "r \<in> set (match_strata S)"
    then obtain u where u: "u \<in> set (unscaled S)" "gene u = gene r" "cem u = cem r"
        "stratum u = stratum r" "matched_gene.n_treated u = matched_gene.n_treated r" "matched_gene.n_control u = matched_gene.n_control r"
      using match_strata_row by blast
    obtain t0 where t0: "t0 \<in> set (unscaled S)" "stratum t0 = stratum u" "gene_features.treated (gene t0) = Some True"
      using unscaled_has_treated[OF u(1)] by blast
    obtain c0 where c0: "c0 \<in> set (unscaled S)" "stratum c0 = stratum u" "gene_features.treated (gene c0) = Some False"
      using unscaled_has_control[OF u(1)] by blast
    obtain t where t: "t \<in> set (match_strata S)" "gene t = gene t0" "stratum t = stratum t0"
      using unscaled_row_matched[OF t0(1)] by blast
    obtain c where c: "c \<in> set (match_strata S)" "gene c = gene c0" "stratum c = stratum c0"
      using unscaled_row_matched[OF c0(1)] by blast
    show "(gene r, cem r, stratum r) \<in> set S
            \<and> matched_gene.n_treated r = n_treated_in S (stratum r) \<and> 0 < matched_gene.n_treated r
            \<and> matched_gene.n_control r = n_control_in S (stratum r) \<and> 0 < matched_gene.n_control r
            \<and> (\<exists>t\<in>set (match_strata S). stratum t = stratum r \<and> gene_features.treated (gene t) = Some True)
            \<and> (\<exists>c\<in>set (match_strata S). stratum c = stratum r \<and> gene_features.treated (gene c) = Some False)"
      using unscaled_row(1-5)[OF u(1)] u t0 c0 t c by (metis (no_types, lifting))
  qed
  show ?thesis
    using S m rows no_support_empty[of S] match_strata_triples[of S] by blast
qed

theorem common_support_invariant_witness:
  "no_support_genes \<noteq> [] \<and> (0::nat) < 10
   \<and> coarsened_exact_matching real_quantiles no_support_genes 10 = Inr []
   \<and> (\<exists>m. coarsened_exact_matching real_quantiles toy_genes 10 = Inr m \<and> length m = 8)"
proof -
  have ne: "no_support_genes \<noteq> []" by (simp add: no_support_genes_def)
  have pos: "(0::nat) < 10" by simp
  obtain S m where S: "assign_strata real_quantiles no_support_genes 10 = Inr S"
    and m: "coarsened_exact_matching real_quantiles no_support_genes 10 = Inr m"
    and e: "(\<forall>a\<in>set S. \<forall>b\<in>set S.
             \<not> (snd (snd a) = snd (snd b) \<and> gene_features.treated (fst a) = Some True
                 \<and> gene_features.treated (fst b) = Some False)) \<longrightarrow> m = []"
    using common_support_invariant[OF ne pos, of real_quantiles] by blast
  have "map (\<lambda>(g, c, s). (gene_features.gene_id g, gene_features.treated g, s)) S
          = [(1, Some True, ''0_0_0_0_0''), (2, Some False, ''9_0_0_0_0'')]"
    using no_support_strata unfolding S by simp
  then have "\<forall>a\<in>set S. \<forall>b\<in>set S.
             \<not> (snd (snd a) = snd (snd b) \<and> gene_features.treated (fst a) = Some True
                 \<and> gene_features.treated (fst b) = Some False)"
    by (auto simp: map_eq_Cons_conv)
  then have "m = []" using e by blast
  moreover have "\<exists>m. coarsened_exact_matching real_quantiles toy_genes 10 = Inr m \<and> length m = 8"
    using toy_cem
    by (cases "coarsened_exact_matching real_quantiles toy_genes 10")
       (auto dest: arg_cong[of _ _ length])
  ultimately show ?thesis using m ne by simp
qed

text \<open>
  C5. Two panels with the same rows strictly before the treatment period give the same
  feature table: the same genes with the same pre_mean_papers, pre_sd_papers,
  pre_mean_newcom, pre_mean_veteran and pre_mean_top10. No row at or after the treatment
  period enters a feature.
\<close>

theorem pre_period_exclusion:
  assumes "filter (\<lambda>r. ym_seq r < t) df1 = filter (\<lambda>r. ym_seq r < t) df2"
  shows "map feature_columns (compute_pre_treatment_features df1 t)
           = map feature_columns (compute_pre_treatment_features df2 t)"
  using assms by (simp add: compute_pre_treatment_features_def feature_columns_def Let_def comp_def)

theorem pre_period_exclusion_witness:
  "sentinel_panel_a \<noteq> sentinel_panel_b
   \<and> filter (\<lambda>r. ym_seq r < 3) sentinel_panel_a = filter (\<lambda>r. ym_seq r < 3) sentinel_panel_b
   \<and> map feature_columns (compute_pre_treatment_features sentinel_panel_a 3)
       = map feature_columns (compute_pre_treatment_features sentinel_panel_b 3)"
proof -
  have h: "filter (\<lambda>r. ym_seq r < 3) sentinel_panel_a = filter (\<lambda>r. ym_seq r < 3) sentinel_panel_b"
    by (simp add: sentinel_panel_a_def sentinel_panel_b_def month_def)
  have "sentinel_panel_a \<noteq> sentinel_panel_b"
    by (simp add: sentinel_panel_a_def sentinel_panel_b_def)
  then show ?thesis using h pre_period_exclusion [OF h] by simp
qed

lemma pre_period_only:
  "map feature_columns (compute_pre_treatment_features df t)
     = map feature_columns (compute_pre_treatment_features (filter (\<lambda>r. ym_seq r < t) df) t)"
  by (simp add: compute_pre_treatment_features_def feature_columns_def Let_def comp_def)

text \<open>
  C7 as stated fails: gene 2 has a row in the panel, none before the treatment period,
  and no row in the feature table.
\<close>

theorem zero_pre_months_counterexample:
  "map panel_row.gene_id late_gene_panel = [1, 2]
   \<and> pre_rows late_gene_panel 3 2 = []
   \<and> map feature_columns (compute_pre_treatment_features late_gene_panel 3) = [(1, 3, 0, 3, 0, 0)]"
  by (simp add: late_gene_panel_def month_def compute_pre_treatment_features_def group_keys_def
      group_rows_def pre_rows_def feature_columns_def pd_mean_def pd_std_def notna_def np_mean_def fillna0_def
      List.map_filter_simps Let_def)

lemma length_notna: "length (notna xs) \<le> length xs"
  by (simp add: notna_def map_filter_def)

lemma notna_all_missing: "\<forall>x\<in>set rows. col x = None \<Longrightarrow> notna (map col rows) = []"
  by (auto simp: notna_def map_filter_def filter_empty_conv)

lemma mean_all_missing:
  "\<forall>x\<in>set rows. col x = None \<Longrightarrow> fillna0 (pd_mean (map col rows)) = 0"
  by (simp add: notna_all_missing pd_mean_def fillna0_def)

lemma feature_values:
  assumes "r \<in> set (compute_pre_treatment_features df t)"
  shows "pre_mean_papers r
           = fillna0 (pd_mean (map n_papers (pre_rows df t (gene_features.gene_id r))))"
    and "pre_sd_papers r
           = fillna0 (pd_std (map n_papers (pre_rows df t (gene_features.gene_id r))))"
    and "pre_mean_newcom r
           = fillna0 (pd_mean (map n_newcomer_papers (pre_rows df t (gene_features.gene_id r))))"
    and "pre_mean_veteran r
           = fillna0 (pd_mean (map n_veteran_papers (pre_rows df t (gene_features.gene_id r))))"
    and "pre_mean_top10 r
           = fillna0 (pd_mean (map n_top10_y (pre_rows df t (gene_features.gene_id r))))"
proof -
  have grp: "\<And>g. group_rows (filter (\<lambda>r. ym_seq r < t) df) g = pre_rows df t g"
    by (simp add: group_rows_def pre_rows_def conj_commute)
  obtain g where "r = (let grp = pre_rows df t g; m = map_of (gene_meta df) g
                  in \<lparr>gene_features.gene_id = g,
                      pre_mean_papers = fillna0 (pd_mean (map n_papers grp)),
                      pre_sd_papers = fillna0 (pd_std (map n_papers grp)),
                      pre_mean_newcom = fillna0 (pd_mean (map n_newcomer_papers grp)),
                      pre_mean_veteran = fillna0 (pd_mean (map n_veteran_papers grp)),
                      pre_mean_top10 = fillna0 (pd_mean (map n_top10_y grp)),
                      gene_features.treated = (case m of None \<Rightarrow> None | Some (t, p, n, i) \<Rightarrow> t),
                      average_plddt = fillna0 (case m of None \<Rightarrow> None | Some (t, p, n, i) \<Rightarrow> p),
                      gene_name = (case m of None \<Rightarrow> None | Some (t, p, n, i) \<Rightarrow> n),
                      protein_id = (case m of None \<Rightarrow> None | Some (t, p, n, i) \<Rightarrow> i)\<rparr>)"
    using assms unfolding compute_pre_treatment_features_def Let_def grp by auto
  then show "pre_mean_papers r
           = fillna0 (pd_mean (map n_papers (pre_rows df t (gene_features.gene_id r))))"
    and "pre_sd_papers r
           = fillna0 (pd_std (map n_papers (pre_rows df t (gene_features.gene_id r))))"
    and "pre_mean_newcom r
           = fillna0 (pd_mean (map n_newcomer_papers (pre_rows df t (gene_features.gene_id r))))"
    and "pre_mean_veteran r
           = fillna0 (pd_mean (map n_veteran_papers (pre_rows df t (gene_features.gene_id r))))"
    and "pre_mean_top10 r
           = fillna0 (pd_mean (map n_top10_y (pre_rows df t (gene_features.gene_id r))))"
    by (simp_all add: Let_def)
qed

text \<open>
  C7, amended. The feature table has exactly one row per gene that has a panel row
  strictly before the treatment period, in increasing order of gene_id; a gene with
  exactly one such row has pre_sd_papers = 0; and a mean or standard deviation over
  pre-treatment rows on which the column is missing throughout is 0.
\<close>

theorem features_per_pre_period_gene:
  "map gene_features.gene_id (compute_pre_treatment_features df t)
     = sort (remdups (map panel_row.gene_id (filter (\<lambda>r. ym_seq r < t) df)))
   \<and> (\<forall>r\<in>set (compute_pre_treatment_features df t).
         length (pre_rows df t (gene_features.gene_id r)) = 1 \<longrightarrow> pre_sd_papers r = 0)
   \<and> (\<forall>r\<in>set (compute_pre_treatment_features df t).
         (\<forall>x\<in>set (pre_rows df t (gene_features.gene_id r)). n_papers x = None)
         \<longrightarrow> pre_mean_papers r = 0 \<and> pre_sd_papers r = 0)
   \<and> (\<forall>r\<in>set (compute_pre_treatment_features df t).
         (\<forall>x\<in>set (pre_rows df t (gene_features.gene_id r)). n_newcomer_papers x = None)
         \<longrightarrow> pre_mean_newcom r = 0)
   \<and> (\<forall>r\<in>set (compute_pre_treatment_features df t).
         (\<forall>x\<in>set (pre_rows df t (gene_features.gene_id r)). n_veteran_papers x = None)
         \<longrightarrow> pre_mean_veteran r = 0)
   \<and> (\<forall>r\<in>set (compute_pre_treatment_features df t).
         (\<forall>x\<in>set (pre_rows df t (gene_features.gene_id r)). n_top10_y x = None)
         \<longrightarrow> pre_mean_top10 r = 0)"
proof (intro conjI ballI impI)
  show "map gene_features.gene_id (compute_pre_treatment_features df t)
          = sort (remdups (map panel_row.gene_id (filter (\<lambda>r. ym_seq r < t) df)))"
    by (simp add: compute_pre_treatment_features_def group_keys_def Let_def comp_def)
next
  fix r assume r: "r \<in> set (compute_pre_treatment_features df t)"
    and one: "length (pre_rows df t (gene_features.gene_id r)) = 1"
  have "length (notna (map n_papers (pre_rows df t (gene_features.gene_id r)))) \<le> 1"
    using length_notna[of "map n_papers (pre_rows df t (gene_features.gene_id r))"] one by simp
  then show "pre_sd_papers r = 0"
    unfolding feature_values(2)[OF r] by (simp add: pd_std_def fillna0_def Let_def)
next
  fix r assume r: "r \<in> set (compute_pre_treatment_features df t)"
    and na: "\<forall>x\<in>set (pre_rows df t (gene_features.gene_id r)). n_papers x = None"
  show "pre_mean_papers r = 0"
    unfolding feature_values(1)[OF r] using na by (rule mean_all_missing)
  have "notna (map n_papers (pre_rows df t (gene_features.gene_id r))) = []"
    using na by (rule notna_all_missing)
  then show "pre_sd_papers r = 0"
    unfolding feature_values(2)[OF r] by (simp add: pd_std_def fillna0_def Let_def)
next
  fix r assume r: "r \<in> set (compute_pre_treatment_features df t)"
    and na: "\<forall>x\<in>set (pre_rows df t (gene_features.gene_id r)). n_newcomer_papers x = None"
  show "pre_mean_newcom r = 0"
    unfolding feature_values(3)[OF r] using na by (rule mean_all_missing)
next
  fix r assume r: "r \<in> set (compute_pre_treatment_features df t)"
    and na: "\<forall>x\<in>set (pre_rows df t (gene_features.gene_id r)). n_veteran_papers x = None"
  show "pre_mean_veteran r = 0"
    unfolding feature_values(4)[OF r] using na by (rule mean_all_missing)
next
  fix r assume r: "r \<in> set (compute_pre_treatment_features df t)"
    and na: "\<forall>x\<in>set (pre_rows df t (gene_features.gene_id r)). n_top10_y x = None"
  show "pre_mean_top10 r = 0"
    unfolding feature_values(5)[OF r] using na by (rule mean_all_missing)
qed

theorem features_per_pre_period_gene_witness:
  "length (pre_rows late_gene_panel 3 1) = 1
   \<and> map gene_features.gene_id (compute_pre_treatment_features late_gene_panel 3) = [1]
   \<and> map pre_sd_papers (compute_pre_treatment_features late_gene_panel 3) = [0]
   \<and> map pre_mean_top10 (compute_pre_treatment_features late_gene_panel 3) = [0]"
proof -
  have one: "length (pre_rows late_gene_panel 3 1) = 1"
    by (simp add: late_gene_panel_def month_def pre_rows_def)
  have na: "\<forall>x\<in>set (pre_rows late_gene_panel 3 1). n_top10_y x = None"
    by (simp add: late_gene_panel_def month_def pre_rows_def)
  have ids: "map gene_features.gene_id (compute_pre_treatment_features late_gene_panel 3) = [1]"
    using features_per_pre_period_gene [of late_gene_panel 3]
    by (simp add: late_gene_panel_def month_def)
  then obtain r where r: "compute_pre_treatment_features late_gene_panel 3 = [r]"
      "gene_features.gene_id r = 1"
    by (auto simp: map_eq_Cons_conv)
  then have "pre_sd_papers r = 0" "pre_mean_top10 r = 0"
    using features_per_pre_period_gene [of late_gene_panel 3] one na by simp_all
  then show ?thesis using one ids r by simp
qed



section \<open>Properties of the first differences\<close>

lemma length_groupby_shift: "length ks = length vs \<Longrightarrow> length (groupby_shift prev ks vs) = length vs"
  by (induction prev ks vs rule: groupby_shift.induct) auto

lemma filter_groupby_shift:
  "filter (\<lambda>(r, p). key r = g) (zip rs (groupby_shift prev (map key rs) rs))
     = zip (filter (\<lambda>r. key r = g) rs) (prev g # map Some (filter (\<lambda>r. key r = g) rs))"
  by (induction rs arbitrary: prev) auto

lemma sorted_within_gene:
  assumes "sorted (map (\<lambda>r. (f r, h r)) xs)"
  shows "sorted (map h (filter (\<lambda>r. f r = g) xs))"
  using assms
proof (induction xs)
  case Nil then show ?case by simp
next
  case (Cons a xs)
  then show ?case by (auto simp: less_eq_prod_def)
qed

lemma zip_shift_nth:
  assumes "i < length xs"
  shows "zip xs (p # map Some xs) ! i = (xs ! i, if i = 0 then p else Some (xs ! (i - 1)))"
  using assms by (cases i) auto

lemma telescope:
  fixes a :: "nat \<Rightarrow> real"
  shows "i \<le> j \<Longrightarrow> (\<Sum>k\<in>{i<..j}. a k - a (k - 1)) = a j - a i"
proof (induction j)
  case 0 then show ?case by simp
next
  case (Suc j)
  show ?case
  proof (cases "i = Suc j")
    case True then show ?thesis by simp
  next
    case False
    then have le: "i \<le> j" using Suc.prems by simp
    have "{i<..Suc j} = insert (Suc j) {i<..j}" using le by auto
    then show ?thesis using Suc.IH[OF le] by simp
  qed
qed

lemma all_outcomes: "y \<in> set OUTCOMES"
  by (cases y) (simp_all add: OUTCOMES_def)

lemma create_delta_variables_rows:
  assumes "N_papers \<in> cols"
  shows "create_delta_variables cols df =
           Inr (map2 (delta_of cols) (sort_key (\<lambda>r. (sem_row.gene_id r, sem_row.semester r)) df)
                  (groupby_shift Map.empty
                     (map sem_row.gene_id (sort_key (\<lambda>r. (sem_row.gene_id r, sem_row.semester r)) df))
                     (sort_key (\<lambda>r. (sem_row.gene_id r, sem_row.semester r)) df)))"
  using assms by (simp add: create_delta_variables_def Let_def)

lemma gene_rows_shift:
  "gene_rows g (map2 (delta_of cols) S (groupby_shift Map.empty (map sem_row.gene_id S) S))
     = map2 (delta_of cols) (filter (\<lambda>r. sem_row.gene_id r = g) S)
         (None # map Some (filter (\<lambda>r. sem_row.gene_id r = g) S))"
proof -
  have "gene_rows g (map2 (delta_of cols) S (groupby_shift Map.empty (map sem_row.gene_id S) S))
          = map (\<lambda>(r, p). delta_of cols r p)
              (filter (\<lambda>(r, p). sem_row.gene_id r = g) (zip S (groupby_shift Map.empty (map sem_row.gene_id S) S)))"
    by (simp add: gene_rows_def filter_map comp_def delta_of_def case_prod_unfold)
  then show ?thesis by (simp add: filter_groupby_shift)
qed

lemma gene_rows_nth:
  assumes "rs = map2 (delta_of cols) T (None # map Some T)" "i < length T"
  shows "rs ! i = delta_of cols (T ! i) (if i = 0 then None else Some (T ! (i - 1)))"
  using assms by (simp add: zip_shift_nth)

text \<open>
  C9. For every outcome column of the frame and every gene, the rows of the gene come out
  ordered by semester; D_Y is NaN on the gene's first row and, on every later row, the
  outcome of the row minus the outcome of the gene's preceding row; and over any run of
  consecutive rows i..j of the gene with no missing outcome, the D_Y of the rows i+1..j
  add up to the outcome at j minus the outcome at i.
\<close>

theorem first_difference_telescoping:
  assumes np: "N_papers \<in> cols" and y: "y \<in> cols"
  shows "\<exists>res. create_delta_variables cols df = Inr res
           \<and> map (\<lambda>r. (sem_row.gene_id r, sem_row.semester r, Y r)) res
               = map (\<lambda>r. (sem_row.gene_id r, sem_row.semester r, Y r)) (sort_key (\<lambda>r. (sem_row.gene_id r, sem_row.semester r)) df)
           \<and> sorted (map sem_row.semester (gene_rows g res))
           \<and> (\<forall>i<length (gene_rows g res).
                 D_Y (gene_rows g res ! i) y =
                   (if i = 0 then None
                    else fsub (Y (gene_rows g res ! i) y) (Y (gene_rows g res ! (i - 1)) y)))
           \<and> (\<forall>i j. i \<le> j \<and> j < length (gene_rows g res)
                    \<and> (\<forall>k. i \<le> k \<and> k \<le> j \<longrightarrow> Y (gene_rows g res ! k) y \<noteq> None)
                  \<longrightarrow> (\<forall>k\<in>{i<..j}. D_Y (gene_rows g res ! k) y \<noteq> None)
                     \<and> (\<Sum>k\<in>{i<..j}. the (D_Y (gene_rows g res ! k) y))
                         = the (Y (gene_rows g res ! j) y) - the (Y (gene_rows g res ! i) y))"
proof -
  define S where "S = sort_key (\<lambda>r. (sem_row.gene_id r, sem_row.semester r)) df"
  define T where "T = filter (\<lambda>r. sem_row.gene_id r = g) S"
  define res where "res = map2 (delta_of cols) S (groupby_shift Map.empty (map sem_row.gene_id S) S)"
  define rs where "rs = gene_rows g res"
  have run: "create_delta_variables cols df = Inr res"
    unfolding res_def S_def by (rule create_delta_variables_rows[OF np])
  have len: "length (groupby_shift Map.empty (map sem_row.gene_id S) S) = length S"
    by (simp add: length_groupby_shift)
  have keep: "map (\<lambda>r. (sem_row.gene_id r, sem_row.semester r, Y r)) res = map (\<lambda>r. (sem_row.gene_id r, sem_row.semester r, Y r)) S"
    unfolding res_def using len
    by (intro nth_equalityI) (simp_all add: delta_of_def)
  have rs: "rs = map2 (delta_of cols) T (None # map Some T)"
    unfolding rs_def res_def T_def by (rule gene_rows_shift)
  have lrs: "length rs = length T" unfolding rs by simp
  have nth: "\<And>i. i < length T \<Longrightarrow>
               rs ! i = delta_of cols (T ! i) (if i = 0 then None else Some (T ! (i - 1)))"
    using gene_rows_nth[OF rs] by blast
  have Yn: "\<And>i. i < length T \<Longrightarrow> Y (rs ! i) = Y (T ! i)"
    by (simp add: nth delta_of_def)
  have sems: "map sem_row.semester rs = map sem_row.semester T"
    using lrs by (intro nth_equalityI) (simp_all add: nth delta_of_def)
  have "sorted (map (\<lambda>r. (sem_row.gene_id r, sem_row.semester r)) S)" unfolding S_def by simp
  then have srt: "sorted (map sem_row.semester rs)"
    unfolding sems T_def by (rule sorted_within_gene)
  have D: "\<And>i. i < length rs \<Longrightarrow>
             D_Y (rs ! i) y = (if i = 0 then None else fsub (Y (rs ! i) y) (Y (rs ! (i - 1)) y))"
  proof -
    fix i assume i: "i < length rs"
    then have iT: "i < length T" using lrs by simp
    show "D_Y (rs ! i) y = (if i = 0 then None else fsub (Y (rs ! i) y) (Y (rs ! (i - 1)) y))"
    proof (cases "i = 0")
      case True
      then show ?thesis using iT by (simp add: nth delta_of_def diff_cell_def)
    next
      case False
      then have "i - 1 < length T" using iT by simp
      then show ?thesis using False iT y
        by (simp add: nth[OF iT] Yn delta_of_def diff_cell_def all_outcomes)
    qed
  qed
  have tel: "\<And>i j. i \<le> j \<Longrightarrow> j < length rs \<Longrightarrow>
               (\<forall>k. i \<le> k \<and> k \<le> j \<longrightarrow> Y (rs ! k) y \<noteq> None) \<Longrightarrow>
               (\<forall>k\<in>{i<..j}. D_Y (rs ! k) y \<noteq> None)
               \<and> (\<Sum>k\<in>{i<..j}. the (D_Y (rs ! k) y)) = the (Y (rs ! j) y) - the (Y (rs ! i) y)"
  proof -
    fix i j assume ij: "i \<le> j" and j: "j < length rs"
      and some: "\<forall>k. i \<le> k \<and> k \<le> j \<longrightarrow> Y (rs ! k) y \<noteq> None"
    have step: "\<And>k. k \<in> {i<..j} \<Longrightarrow>
                  D_Y (rs ! k) y = Some (the (Y (rs ! k) y) - the (Y (rs ! (k - 1)) y))"
    proof -
      fix k assume k: "k \<in> {i<..j}"
      then have k0: "k \<noteq> 0" and kl: "k < length rs" using j by auto
      obtain a where a: "Y (rs ! k) y = Some a" using some k by fastforce
      have "i \<le> k - 1 \<and> k - 1 \<le> j" using k by auto
      then obtain b where b: "Y (rs ! (k - 1)) y = Some b" using some by fastforce
      show "D_Y (rs ! k) y = Some (the (Y (rs ! k) y) - the (Y (rs ! (k - 1)) y))"
        using D[OF kl] k0 a b by (simp add: fsub_def)
    qed
    have "(\<Sum>k\<in>{i<..j}. the (D_Y (rs ! k) y))
            = (\<Sum>k\<in>{i<..j}. the (Y (rs ! k) y) - the (Y (rs ! (k - 1)) y))"
      by (rule sum.cong) (simp_all add: step)
    also have "\<dots> = the (Y (rs ! j) y) - the (Y (rs ! i) y)"
      using telescope[OF ij, of "\<lambda>k. the (Y (rs ! k) y)"] by simp
    finally show "(\<forall>k\<in>{i<..j}. D_Y (rs ! k) y \<noteq> None)
               \<and> (\<Sum>k\<in>{i<..j}. the (D_Y (rs ! k) y)) = the (Y (rs ! j) y) - the (Y (rs ! i) y)"
      using step by simp
  qed
  have c: "\<forall>i<length rs. D_Y (rs ! i) y =
              (if i = 0 then None else fsub (Y (rs ! i) y) (Y (rs ! (i - 1)) y))"
    using D by blast
  have d: "\<forall>i j. i \<le> j \<and> j < length rs
              \<and> (\<forall>k. i \<le> k \<and> k \<le> j \<longrightarrow> Y (rs ! k) y \<noteq> None)
            \<longrightarrow> (\<forall>k\<in>{i<..j}. D_Y (rs ! k) y \<noteq> None)
               \<and> (\<Sum>k\<in>{i<..j}. the (D_Y (rs ! k) y)) = the (Y (rs ! j) y) - the (Y (rs ! i) y)"
    using tel by blast
  show ?thesis
    using run keep[unfolded S_def] srt c d unfolding rs_def by blast
qed

lemma delta_example:
  "\<exists>res. create_delta_variables UNIV delta_panel = Inr res
     \<and> map (\<lambda>r. (sem_row.gene_id r, sem_row.semester r, D_Y r N_papers)) res
         = [(7, 1, None), (7, 2, Some 4), (7, 3, Some 5), (8, 1, None)]"
  by (simp add: create_delta_variables_def delta_of_def delta_panel_def sem_def diff_cell_def
      fsub_def OUTCOMES_def Let_def)

theorem first_difference_telescoping_witness:
  "N_papers \<in> (UNIV :: outcome_name set)
   \<and> (\<exists>res. create_delta_variables UNIV delta_panel = Inr res
         \<and> length (gene_rows 7 res) = 3
         \<and> D_Y (gene_rows 7 res ! 0) N_papers = None
         \<and> (\<Sum>k\<in>{0<..2}. the (D_Y (gene_rows 7 res ! k) N_papers))
             = the (Y (gene_rows 7 res ! 2) N_papers) - the (Y (gene_rows 7 res ! 0) N_papers))"
proof -
  obtain res where r: "create_delta_variables UNIV delta_panel = Inr res"
    and keep: "map (\<lambda>r. (sem_row.gene_id r, sem_row.semester r, Y r)) res
               = map (\<lambda>r. (sem_row.gene_id r, sem_row.semester r, Y r))
                   (sort_key (\<lambda>r. (sem_row.gene_id r, sem_row.semester r)) delta_panel)"
    and d: "\<forall>i<length (gene_rows 7 res).
                 D_Y (gene_rows 7 res ! i) N_papers =
                   (if i = 0 then None
                    else fsub (Y (gene_rows 7 res ! i) N_papers) (Y (gene_rows 7 res ! (i - 1)) N_papers))"
    and t: "\<forall>i j. i \<le> j \<and> j < length (gene_rows 7 res)
                    \<and> (\<forall>k. i \<le> k \<and> k \<le> j \<longrightarrow> Y (gene_rows 7 res ! k) N_papers \<noteq> None)
                  \<longrightarrow> (\<forall>k\<in>{i<..j}. D_Y (gene_rows 7 res ! k) N_papers \<noteq> None)
                     \<and> (\<Sum>k\<in>{i<..j}. the (D_Y (gene_rows 7 res ! k) N_papers))
                         = the (Y (gene_rows 7 res ! j) N_papers) - the (Y (gene_rows 7 res ! i) N_papers)"
    using first_difference_telescoping [of UNIV N_papers delta_panel 7] by auto
  have gm: "map (\<lambda>r. (sem_row.gene_id r, Y r N_papers)) res = [(7, Some 1), (7, Some 5), (7, Some 10), (8, Some 4)]"
  proof -
    have "map (\<lambda>r. (sem_row.gene_id r, Y r N_papers)) res
            = map (\<lambda>(g, s, y). (g, y N_papers)) (map (\<lambda>r. (sem_row.gene_id r, sem_row.semester r, Y r)) res)"
      by simp
    also have "\<dots> = [(7, Some 1), (7, Some 5), (7, Some 10), (8, Some 4)]"
      unfolding keep by (simp add: delta_panel_def sem_def)
    finally show ?thesis .
  qed
  have gr: "map (\<lambda>r. Y r N_papers) (gene_rows 7 res) = [Some 1, Some 5, Some 10]"
  proof -
    have "map (\<lambda>r. Y r N_papers) (gene_rows 7 res)
            = map snd (filter (\<lambda>p. fst p = 7) (map (\<lambda>r. (sem_row.gene_id r, Y r N_papers)) res))"
      by (simp add: gene_rows_def filter_map comp_def)
    then show ?thesis unfolding gm by simp
  qed
  have len: "length (gene_rows 7 res) = 3"
    using arg_cong[OF gr, of length] by simp
  have ys: "\<forall>k. 0 \<le> k \<and> k \<le> 2 \<longrightarrow> Y (gene_rows 7 res ! k) N_papers \<noteq> None"
  proof (intro allI impI)
    fix k :: nat assume "0 \<le> k \<and> k \<le> 2"
    then have k: "k < length (gene_rows 7 res)" using len by simp
    have "Y (gene_rows 7 res ! k) N_papers = [Some 1, Some 5, Some 10] ! k"
      using nth_map[OF k, of "\<lambda>r. Y r N_papers"] gr by simp
    then show "Y (gene_rows 7 res ! k) N_papers \<noteq> None"
      using k len by (cases k; cases "k - 1"; cases "k - 2") auto
  qed
  show ?thesis using r len d t ys by auto
qed


section \<open>Properties of the event study\<close>

lemma sum_list_const_mult:
  "(\<forall>r\<in>set rows. f r = (c::real)) \<Longrightarrow> sum_list (map2 (*) (map f rows) (map w rows)) = c * sum_list (map w rows)"
  by (induction rows) (auto simp: algebra_simps)

lemma weighted_mean_const:
  assumes "\<forall>r\<in>set rows. outcome r = Some c" "sum_list (map cem_weight rows) \<noteq> 0"
  shows "weighted_mean rows = Inr c"
proof -
  have "\<forall>r\<in>set rows. fillna0 (outcome r) = c" using assms(1) by (simp add: fillna0_def)
  then have "sum_list (map2 (*) (map (\<lambda>r. fillna0 (outcome r)) rows) (map cem_weight rows))
             = c * sum_list (map cem_weight rows)"
    by (rule sum_list_const_mult)
  then show ?thesis using assms(2) by (simp add: weighted_mean_def np_average_def)
qed

lemma sum_equal_weights:
  "(\<forall>r\<in>set rows. cem_weight r = w) \<Longrightarrow> sum_list (map cem_weight rows) = real (length rows) * w"
  by (induction rows) (auto simp: algebra_simps)

lemma equal_weights_sum_nonzero:
  "(\<forall>r\<in>set rows. cem_weight r = w) \<Longrightarrow> w \<noteq> 0 \<Longrightarrow> rows \<noteq> [] \<Longrightarrow> sum_list (map cem_weight rows) \<noteq> 0"
  using sum_equal_weights[of rows w] by simp

lemma weighted_mean_returns:
  "sum_list (map cem_weight rows) \<noteq> 0 \<Longrightarrow> \<exists>m. weighted_mean rows = Inr m"
  by (simp add: weighted_mean_def np_average_def)

lemma boot_replicate_returns:
  assumes "\<forall>r\<in>set tk \<union> set ck. cem_weight r = w" "w \<noteq> 0"
  shows "\<exists>v g'. boot_replicate tk ck bd g = Inr (v, g')"
proof -
  have ok: "\<And>P rows. set rows \<subseteq> set tk \<union> set ck \<Longrightarrow> filter P rows \<noteq> [] \<Longrightarrow> \<exists>m. weighted_mean (filter P rows) = Inr m"
  proof -
    fix P rows assume a: "set rows \<subseteq> set tk \<union> set ck" "filter P rows \<noteq> []"
    have "\<forall>r\<in>set (filter P rows). cem_weight r = w" using a(1) assms(1) by auto
    then have "sum_list (map cem_weight (filter P rows)) \<noteq> 0"
      using equal_weights_sum_nonzero assms(2) a(2) by blast
    then show "\<exists>m. weighted_mean (filter P rows) = Inr m" by (rule weighted_mean_returns)
  qed
  show ?thesis
    unfolding boot_replicate_def Let_def
    apply (simp split: prod.splits)
    apply (intro allI impI conjI)
    subgoal for a b c d
      using ok[of tk "\<lambda>r. gene_id r \<in> set a"] ok[of ck "\<lambda>r. gene_id r \<in> set c"]
      by (auto split: sum.splits)
    done
qed

lemma bootstrap_returns:
  assumes "\<forall>r\<in>set tk \<union> set ck. cem_weight r = w" "w \<noteq> 0"
  shows "\<exists>bc g'. bootstrap n tk ck bd acc g = Inr (bc, g')"
proof (induction n arbitrary: acc g)
  case 0 show ?case by simp
next
  case (Suc n)
  obtain v g1 where r: "boot_replicate tk ck bd g = Inr (v, g1)"
    using boot_replicate_returns[OF assms] by blast
  show ?case using r Suc by (cases v) auto
qed

lemma period_loop_step:
  assumes "arm df k True \<noteq> []" "arm df k False \<noteq> []"
    and "weighted_mean (arm df k True) = Inr mt" "weighted_mean (arm df k False) = Inr mc"
    and "bootstrap n_boot (arm df k True) (arm df k False) bd [] g = Inr (bc, g')"
    and "period_loop df b bd ks g' = Inr (rows, g'')"
  shows "\<exists>row. period_loop df b bd (k # ks) g = Inr (row # rows, g'') \<and> period row = k
           \<and> coef row = (if k \<noteq> b then mt - mc - bd else 0)"
  using assms by (simp add: Let_def)

lemma periods_list:
  assumes "set xs = {-2, -1, 0, 1::int}"
  shows "sort (remdups xs) = [-2, -1, 0, 1]"
proof -
  have "sort (remdups xs) = sorted_list_of_set (set xs)"
    by (simp add: sorted_list_of_set_sort_remdups)
  also have "\<dots> = sorted_list_of_set (set [-2, -1, 0, 1::int])" using assms by simp
  also have "\<dots> = [-2, -1, 0, 1]"
    by (rule sorted_distinct_set_unique) auto
  finally show ?thesis .
qed

text \<open>
  C8. In a panel whose rows lie in the relative semesters -2, -1, 0, 1, with every arm
  present in every semester, all weights equal (and not zero), treated outcomes 2, 2, 2, 6
  and control outcomes 2, 2, 2, 2, the pairwise estimator with base period -1 returns the
  coefficients 0, 0, 0, 4 for the periods -2, -1, 0, 1, whatever the bootstrap draws.
\<close>

theorem pairwise_sanity_scenario:
  assumes w: "w \<noteq> 0" "\<forall>r\<in>set df. cem_weight r = w"
    and vals: "\<forall>r\<in>set df. outcome r =
                 Some (if treated r = Some True \<and> rel_semester r = 1 then 6 else 2)"
    and pers: "set (map rel_semester df) = {-2, -1, 0, 1}"
    and arms: "\<forall>k\<in>{-2, -1, 0, 1}. arm df k True \<noteq> [] \<and> arm df k False \<noteq> []"
  shows "\<exists>rows g'. run_event_study_simple g df (-1) = Inr (Some rows, g')
           \<and> map (\<lambda>r. (period r, coef r)) rows = [(-2, 0), (-1, 0), (0, 0), (1, 4)]"
proof -
  have dn: "dropna df = df" using vals by (auto simp: dropna_def)
  have ne: "df \<noteq> []" using pers by auto
  have ps: "sort (remdups (map rel_semester df)) = [-2, -1, 0, 1]"
    using pers by (simp add: periods_list)
  have sumw: "\<And>k t. k \<in> {-2, -1, 0, 1} \<Longrightarrow> sum_list (map cem_weight (arm df k t)) \<noteq> 0"
  proof -
    fix k :: int and t assume k: "k \<in> {-2, -1, 0, 1}"
    have "arm df k t \<noteq> []" using arms k by (cases t) auto
    moreover have "\<forall>r\<in>set (arm df k t). cem_weight r = w" using w(2) by (simp add: arm_def)
    ultimately show "sum_list (map cem_weight (arm df k t)) \<noteq> 0"
      using equal_weights_sum_nonzero w(1) by blast
  qed
  have ctrl: "\<And>k. k \<in> {-2, -1, 0, 1} \<Longrightarrow> weighted_mean (arm df k False) = Inr 2"
    by (rule weighted_mean_const) (use vals sumw in \<open>auto simp: arm_def\<close>)
  have trt: "\<And>k. k \<in> {-2, -1, 0} \<Longrightarrow> weighted_mean (arm df k True) = Inr 2"
    by (rule weighted_mean_const) (use vals sumw in \<open>auto simp: arm_def\<close>)
  have trt1: "weighted_mean (arm df 1 True) = Inr 6"
    by (rule weighted_mean_const) (use vals sumw in \<open>auto simp: arm_def\<close>)
  have boot: "\<And>k g. \<exists>bc g'. bootstrap n_boot (arm df k True) (arm df k False) 0 [] g = Inr (bc, g')"
    by (rule bootstrap_returns[OF _ w(1)]) (use w(2) in \<open>auto simp: arm_def\<close>)
  obtain bc1 g1 where b1: "bootstrap n_boot (arm df (-2) True) (arm df (-2) False) 0 [] g = Inr (bc1, g1)"
    using boot by blast
  obtain bc2 g2 where b2: "bootstrap n_boot (arm df (-1) True) (arm df (-1) False) 0 [] g1 = Inr (bc2, g2)"
    using boot by blast
  obtain bc3 g3 where b3: "bootstrap n_boot (arm df 0 True) (arm df 0 False) 0 [] g2 = Inr (bc3, g3)"
    using boot by blast
  obtain bc4 g4 where b4: "bootstrap n_boot (arm df 1 True) (arm df 1 False) 0 [] g3 = Inr (bc4, g4)"
    using boot by blast
  have l5: "period_loop df (-1) 0 [] g4 = Inr ([], g4)" by simp
  obtain r4 where l4: "period_loop df (-1) 0 [1] g3 = Inr ([r4], g4)" "period r4 = 1" "coef r4 = 4"
    using period_loop_step[OF _ _ trt1 ctrl[of 1] b4 l5] arms by auto
  obtain r3 where l3: "period_loop df (-1) 0 [0, 1] g2 = Inr ([r3, r4], g4)" "period r3 = 0" "coef r3 = 0"
    using period_loop_step[OF _ _ trt[of 0] ctrl[of 0] b3 l4(1)] arms by auto
  obtain r2 where l2: "period_loop df (-1) 0 [-1, 0, 1] g1 = Inr ([r2, r3, r4], g4)" "period r2 = -1" "coef r2 = 0"
    using period_loop_step[OF _ _ trt[of "-1"] ctrl[of "-1"] b2 l3(1)] arms by auto
  obtain r1 where l1: "period_loop df (-1) 0 [-2, -1, 0, 1] g = Inr ([r1, r2, r3, r4], g4)" "period r1 = -2" "coef r1 = 0"
    using period_loop_step[OF _ _ trt[of "-2"] ctrl[of "-2"] b1 l2(1)] arms by auto
  have "run_event_study_simple g df (-1) = Inr (Some [r1, r2, r3, r4], g4)"
    using arms ne by (simp add: run_event_study_simple_def dn ps trt ctrl l1 l2(2) l3(2) l4(2) del: period_loop.simps)
  then show ?thesis using l1 l2 l3 l4 by simp
qed

theorem pairwise_sanity_scenario_witness:
  "map cem_weight sanity_panel = replicate 16 1
   \<and> (\<exists>rows g'. run_event_study_simple (\<lambda>i. i) sanity_panel (-1) = Inr (Some rows, g')
         \<and> map (\<lambda>r. (period r, coef r)) rows = [(-2, 0), (-1, 0), (0, 0), (1, 4)])"
proof -
  have w: "\<forall>r\<in>set sanity_panel. cem_weight r = 1"
    by (simp add: sanity_panel_def gene_series_def es_def)
  have vals: "\<forall>r\<in>set sanity_panel. outcome r =
                Some (if treated r = Some True \<and> rel_semester r = 1 then 6 else 2)"
    by (simp add: sanity_panel_def gene_series_def es_def)
  have pers: "set (map rel_semester sanity_panel) = {-2, -1, 0, 1}"
    by (auto simp: sanity_panel_def gene_series_def es_def)
  have arms: "\<forall>k\<in>{-2, -1, 0, 1}. arm sanity_panel k True \<noteq> [] \<and> arm sanity_panel k False \<noteq> []"
    by (simp add: sanity_panel_def gene_series_def es_def arm_def)
  have "map cem_weight sanity_panel = replicate 16 1"
    by (simp add: sanity_panel_def gene_series_def es_def numeral_eq_Suc)
  then show ?thesis
    using pairwise_sanity_scenario [of 1 sanity_panel "\<lambda>i. i", OF _ w vals pers arms]
    by simp
qed

lemma ols_rows_periods:
  "ols_rows ks coefs ses i = Inr rows \<Longrightarrow> map period rows = ks"
  by (induction ks arbitrary: i rows) (auto split: if_splits sum.splits)

lemma ols_base_row_zero:
  assumes "run_event_study_ols fit df b = Inr (Some rows)"
  shows "\<lparr>period = b, coef = 0, se = 0, ci_low = 0, ci_high = 0\<rparr> \<in> set rows
         \<and> (\<forall>r\<in>set rows. period r = b \<longrightarrow> coef r = 0 \<and> se r = 0 \<and> ci_low r = 0 \<and> ci_high r = 0)"
proof -
  obtain coefs ses rs where
    rs: "ols_rows (filter (\<lambda>k. k \<noteq> b) (sort (remdups (map rel_semester (dropna df))))) coefs ses 0
           = Inr rs"
    and rows: "rows = sort_key period
                 (rs @ [\<lparr>period = b, coef = 0, se = 0, ci_low = 0, ci_high = 0\<rparr>])"
    using assms
    by (auto simp: run_event_study_ols_def Let_def split: if_splits sum.splits prod.splits)
  have "period ` set rs
          = set (filter (\<lambda>k. k \<noteq> b) (sort (remdups (map rel_semester (dropna df)))))"
    using ols_rows_periods[OF rs] by (metis list.set_map)
  then have "\<forall>r\<in>set rs. period r \<noteq> b" by auto
  then show ?thesis unfolding rows by auto
qed

lemma ols_base_row_zero_example:
  "\<exists>rows. run_event_study_ols constant_fit sanity_panel (-1) = Inr (Some rows)
     \<and> \<lparr>period = -1, coef = 0, se = 0, ci_low = 0, ci_high = 0\<rparr> \<in> set rows"
proof -
  have p: "sort (remdups (map rel_semester (dropna sanity_panel))) = [-2, -1, 0, 1]"
    by (rule periods_list) (auto simp: sanity_panel_def gene_series_def es_def dropna_def)
  have ne: "dropna sanity_panel \<noteq> []"
    by (simp add: sanity_panel_def gene_series_def es_def dropna_def)
  have "\<exists>rows. run_event_study_ols constant_fit sanity_panel (-1) = Inr (Some rows)"
    using ne by (simp add: run_event_study_ols_def p constant_fit_def Let_def)
  then show ?thesis using ols_base_row_zero by blast
qed

lemma arms_base:
  "arm (dropna base_only_panel) (-1) True = [es 11 (-1) True 1, es 12 (-1) True 3]"
  "arm (dropna base_only_panel) (-1) False = [es 13 (-1) False 0]"
  by (simp_all add: base_only_panel_def dropna_def arm_def es_def)

lemma rep_zero:
  "boot_replicate [es 11 (-1) True 1, es 12 (-1) True 3] [es 13 (-1) False 0] 2 (\<lambda>i. 0)
     = Inr (Some (-1), (\<lambda>i. 0))"
  by (auto simp: boot_replicate_def pd_unique_def random_choice_def es_def weighted_mean_def
      np_average_def fillna0_def Let_def)

lemma rep_first:
  "boot_replicate [es 11 (-1) True 1, es 12 (-1) True 3] [es 13 (-1) False 0] 2 rng_first_one
     = Inr (Some 0, (\<lambda>i. 0))"
  by (auto simp: boot_replicate_def pd_unique_def random_choice_def es_def weighted_mean_def
      np_average_def fillna0_def Let_def rng_first_one_def)

lemma boot_zero:
  "bootstrap n [es 11 (-1) True 1, es 12 (-1) True 3] [es 13 (-1) False 0] 2 acc (\<lambda>i. 0)
     = Inr (acc @ replicate n (-1), (\<lambda>i. 0))"
  by (induction n arbitrary: acc) (simp_all add: rep_zero replicate_app_Cons_same)

lemma boot_all:
  "bootstrap n_boot [es 11 (-1) True 1, es 12 (-1) True 3] [es 13 (-1) False 0] 2 [] rng_first_one
     = Inr (0 # replicate 199 (-1), (\<lambda>i. 0))"
proof -
  have "bootstrap (Suc 199) [es 11 (-1) True 1, es 12 (-1) True 3] [es 13 (-1) False 0] 2 []
          rng_first_one = Inr (0 # replicate 199 (-1), (\<lambda>i. 0))"
    by (subst bootstrap.simps) (simp add: rep_first boot_zero)
  then show ?thesis by (simp add: n_boot_def)
qed

lemma std_val: "np_std (0 # replicate 199 (-1)) = sqrt 199 / 200"
proof -
  have m: "np_mean (0 # replicate 199 (-1)) = - (199 / 200)"
    by (simp add: np_mean_def sum_list_replicate)
  have v: "np_mean (map (\<lambda>x. (x - np_mean (0 # replicate 199 (-1)))\<^sup>2) (0 # replicate 199 (-1)))
          = 199 / 40000"
    unfolding m by (simp add: np_mean_def sum_list_replicate power2_eq_square)
  have s: "sqrt (199 / 40000) = sqrt 199 / 200"
  proof -
    have "sqrt 40000 = sqrt (200\<^sup>2)" by simp
    also have "\<dots> = 200" by (simp del: power2_eq_square)
    finally show ?thesis by (simp add: real_sqrt_divide)
  qed
  show ?thesis unfolding np_std_def v s by (rule refl)
qed

text \<open>
  C1 (the pairwise half, evaluated). On a panel that holds the base period only, with two
  treated genes of outcome 1 and 3 and one control gene, and draws that pick the two
  treated genes in the first replicate and the first treated gene alone afterwards, the
  pairwise estimator returns the base row with coefficient 0 and a standard error and
  confidence bounds that are not 0: the bootstrap runs for the base period too.
\<close>

theorem base_se_simple:
  "run_event_study_simple rng_first_one base_only_panel (-1) =
     Inr (Some [\<lparr>period = -1, coef = 0, se = sqrt 199 / 200,
                  ci_low = 0 - 1.96 * (sqrt 199 / 200), ci_high = 0 + 1.96 * (sqrt 199 / 200),
                  n_treated = 2, n_control = 1\<rparr>], (\<lambda>i. 0))
   \<and> sqrt 199 / 200 > (0::real)"
proof -
  have ne: "dropna base_only_panel \<noteq> []"
    by (simp add: base_only_panel_def dropna_def es_def)
  have ps: "sort (remdups (map rel_semester (dropna base_only_panel))) = [-1]"
    by (simp add: base_only_panel_def dropna_def es_def)
  have wt: "weighted_mean [es 11 (-1) True 1, es 12 (-1) True 3] = Inr 2"
    by (simp add: weighted_mean_def np_average_def es_def fillna0_def)
  have wc: "weighted_mean [es 13 (-1) False 0] = Inr 0"
    by (simp add: weighted_mean_def np_average_def es_def fillna0_def)
  show ?thesis
    by (simp add: run_event_study_simple_def ne ps arms_base wt wc boot_all std_val Let_def)
qed

lemma np_std_is_population: "np_std [0, 2] = 1"
proof -
  have "np_mean (map (\<lambda>x. (x - np_mean [0, 2])\<^sup>2) [0, 2]) = 1"
    by (simp add: np_mean_def)
  then show ?thesis by (simp add: np_std_def)
qed

text \<open>
  C4 (evaluated). Three treated genes with outcomes 0, 3, 30 and draws that pick the
  first gene twice and the second once: the replicate's treated mean is 3/2, the mean
  over the two distinct drawn genes, where the resample that keeps each draw (the first
  gene counted twice) has mean 1.
\<close>

theorem bootstrap_ignores_multiplicity:
  "random_choice (pd_unique (map gene_id dup_treated)) rng_third_one = ([21, 21, 22], (\<lambda>i. 0))
   \<and> boot_replicate dup_treated dup_control 0 rng_third_one = Inr (Some (3 / 2), (\<lambda>i. 0))
   \<and> weighted_mean (resample_with_multiplicity dup_treated [21, 21, 22]) = Inr 1"
  by (auto simp: boot_replicate_def pd_unique_def random_choice_def es_def weighted_mean_def
      np_average_def fillna0_def Let_def rng_third_one_def dup_treated_def dup_control_def
      resample_with_multiplicity_def)

text \<open>
  C10. If, once the rows with a missing outcome are dropped, the base period has no
  treated row or no control row, the pairwise estimator returns None for the whole
  outcome, whatever the other periods hold; the random generator is left untouched.
\<close>

theorem base_period_missing_returns_none:
  assumes "arm (dropna df) base_period True = [] \<or> arm (dropna df) base_period False = []"
  shows "run_event_study_simple g df base_period = Inr (None, g)"
  using assms by (auto simp: run_event_study_simple_def Let_def)

theorem base_period_missing_returns_none_witness:
  "arm (dropna no_base_control_panel) (-1) False = []
   \<and> arm (dropna no_base_control_panel) 0 True \<noteq> []
   \<and> arm (dropna no_base_control_panel) 0 False \<noteq> []
   \<and> run_event_study_simple (\<lambda>i. i) no_base_control_panel (-1) = Inr (None, (\<lambda>i. i))"
proof -
  have h: "arm (dropna no_base_control_panel) (-1) False = []"
    by (simp add: no_base_control_panel_def dropna_def arm_def es_def)
  have "arm (dropna no_base_control_panel) 0 True \<noteq> []"
    "arm (dropna no_base_control_panel) 0 False \<noteq> []"
    by (simp_all add: no_base_control_panel_def dropna_def arm_def es_def)
  then show ?thesis
    using h base_period_missing_returns_none [of no_base_control_panel "-1" "\<lambda>i. i"]
    by simp
qed

end
